theory Spec2Isabelle
  imports Main "HOL-Library.Word"
begin

unbundle bit_operations_syntax

section \<open>gocryptfs: the config file and the file handle, embedded in HOL\<close>

text \<open>
  The development follows three source files of the repository: package
  \<open>cryptocore\<close> (\<open>New\<close>), package \<open>configfile\<close> (\<open>CreateConfFile\<close>,
  \<open>LoadConfFile\<close>, \<open>EncryptKey\<close>, \<open>WriteFile\<close>) and package \<open>fusefrontend\<close>
  (the \<open>file\<close> handle with its FUSE operations).  Go functions become HOL
  functions over an explicit world; a Go \<open>error\<close> is a value, a Go panic is a
  constructor of the outcome type.  Everything these files call in packages
  that are not part of the sources at hand is either an explicit parameter or a
  definition marked \<open>Modelled from the spec\<close>.
\<close>

subsection \<open>Bytes, error numbers, outcomes\<close>

type_synonym byte = "8 word"

datatype errno = EBADF | EIO | ENOSYS | ENOSPC | ENOENT | EEXIST | EACCES | EINVAL

text \<open>A Go call either panics or returns; what it returns may itself be an error value.\<close>

datatype 'a outcome = Panics | Returns 'a

subsection \<open>Package cryptocore\<close>

definition KeyLen :: nat where
  "KeyLen = 32"

definition AuthTagLen :: nat where
  "AuthTagLen = 16"

text \<open>
  Modelled from the spec: the scrypt parameter object (\<open>scryptKdf\<close>, not among the
  sources).  The spec lists its fields: salt, N, r, p and key length.
\<close>

record scryptKdf =
  kdf_Salt :: "byte list"
  kdf_N :: nat
  kdf_R :: nat
  kdf_P :: nat
  kdf_KeyLen :: nat

text \<open>
  Modelled from the spec: key material.  A key is either a string of bytes or the
  output of \<open>derive_key(password, salt, N, r, p, len)\<close>, which the spec names as
  scrypt.  scrypt uses the password only as the key of HMAC-SHA256 (inside PBKDF2), and
  HMAC first brings its key to its block size of 64 bytes: a key of at most 64 bytes is
  padded with zero bytes, a longer key is replaced by its digest.  \<open>hmacKey\<close> is this
  first step, with the digest kept symbolic.  So passwords that differ only in trailing
  zero bytes derive the same key.  Beyond this step the derivation is kept symbolic: the
  derived key is the term built from the HMAC key and the parameter object; only its
  length is concrete.
\<close>

datatype hmackey = HmacBlock string | HmacDigest string

definition hmacKey :: "string \<Rightarrow> hmackey" where
  "hmacKey pw = (if length pw \<le> 64 then HmacBlock (pw @ replicate (64 - length pw) (CHR 0x00))
                 else HmacDigest pw)"

datatype keymat = KeyBytes "byte list" | ScryptOut hmackey scryptKdf

fun keylen :: "keymat \<Rightarrow> nat" where
  "keylen (KeyBytes bs) = length bs"
| "keylen (ScryptOut k kdf) = kdf_KeyLen kdf"

text \<open>
  The AEAD behind \<open>CryptoCore.Gcm\<close>: Go's own GCM with a chosen nonce size
  (\<open>goGCMWrapper\<close>) or the OpenSSL binding (\<open>stupidgcm\<close>).
\<close>

datatype aead = GoGCM keymat nat | StupidGCM keymat

record CryptoCore =
  BlockCipher :: keymat
  Gcm :: aead
  GcmIVGen :: nat
  IVLen :: nat

text \<open>
  \<open>cryptocore.New\<close>.  \<open>aes.NewCipher\<close> fails only for a key that is not 16, 24 or 32
  bytes long, which the length check before it excludes.  Modelled from the spec:
  \<open>goGCMWrapper\<close> (not among the sources) yields the platform GCM for the requested
  nonce length; the spec allows both 96-bit and 128-bit nonces.
\<close>

definition New :: "keymat \<Rightarrow> bool \<Rightarrow> bool \<Rightarrow> CryptoCore outcome" where
  "New key useOpenssl GCMIV128 =
     (if keylen key \<noteq> KeyLen then Panics
      else
        let ivLen = (if GCMIV128 then 128 div 8 else 96 div 8);
            blockCipher = key;
            gcm = (if useOpenssl \<and> GCMIV128 then StupidGCM key else GoGCM blockCipher ivLen)
        in Returns \<lparr>BlockCipher = blockCipher, Gcm = gcm, GcmIVGen = ivLen, IVLen = ivLen\<rparr>)"

subsection \<open>Package contentenc: the part the config file uses\<close>

record ContentEnc =
  cryptoCore :: CryptoCore
  plainBS :: nat
  cipherBS :: nat

text \<open>
  Modelled from the spec: \<open>contentenc.New\<close>.  ``Ciphertext block size = plaintext size
  + nonce + auth tag.''
\<close>

definition contentenc_New :: "CryptoCore \<Rightarrow> nat \<Rightarrow> ContentEnc" where
  "contentenc_New cc plainBS' =
     \<lparr>cryptoCore = cc, plainBS = plainBS', cipherBS = plainBS' + IVLen cc + AuthTagLen\<rparr>"

text \<open>
  Modelled from the spec: ciphertext.  A block on disk is
  \<open>nonce || ciphertext || tag\<close>.  A sealed block is kept symbolic: it records the key,
  the nonce, the associated data (block number, file ID) and the plaintext.  Bytes that
  no \<open>seal\<close> produced are \<open>RawBytes\<close>.
\<close>

datatype ciphertext =
    Sealed keymat "byte list" nat "byte list" "byte list"
  | RawBytes "byte list"

fun ciphertext_len :: "ciphertext \<Rightarrow> nat" where
  "ciphertext_len (Sealed k nonce blockNo fileId plaintext) =
     length nonce + length plaintext + AuthTagLen"
| "ciphertext_len (RawBytes bs) = length bs"

fun aead_key :: "aead \<Rightarrow> keymat" where
  "aead_key (GoGCM k n) = k"
| "aead_key (StupidGCM k) = k"

text \<open>
  Modelled from the spec: \<open>encrypt_block(plaintext, block_no, file_id)\<close>, output
  length \<open>len(plaintext) + nonce_len + tag_len\<close>.  The nonce is what the nonce
  generator of the crypto core hands out; it is an argument here.
\<close>

definition EncryptBlock :: "ContentEnc \<Rightarrow> byte list \<Rightarrow> byte list \<Rightarrow> nat \<Rightarrow> byte list \<Rightarrow> ciphertext" where
  "EncryptBlock be nonce plaintext blockNo fileId =
     Sealed (aead_key (Gcm (cryptoCore be))) nonce blockNo fileId plaintext"

text \<open>
  Modelled from the spec: \<open>decrypt_block(ciphertext, block_no, file_id)\<close> returns the
  plaintext or an authentication error; an empty input yields an empty output; any
  other block number or file ID fails.  The AEAD is ideal: it opens exactly the blocks
  sealed under its own key with a nonce of its own length and the same associated data.
\<close>

datatype autherror = AuthError

fun DecryptBlock :: "ContentEnc \<Rightarrow> ciphertext \<Rightarrow> nat \<Rightarrow> byte list \<Rightarrow> autherror + byte list" where
  "DecryptBlock be (RawBytes bs) blockNo fileId = (if bs = [] then Inr [] else Inl AuthError)"
| "DecryptBlock be (Sealed k nonce bn fid plaintext) blockNo fileId =
     (if k = aead_key (Gcm (cryptoCore be)) \<and> length nonce = IVLen (cryptoCore be)
         \<and> bn = blockNo \<and> fid = fileId
      then Inr plaintext else Inl AuthError)"

subsection \<open>Package configfile\<close>

text \<open>
  Modelled from the spec: the feature flags (\<open>flagIota\<close>, \<open>knownFlags\<close>,
  \<open>isFeatureFlagKnown\<close>, \<open>IsFeatureFlagSet\<close> are not among the sources).  ``Known
  flags: DirIV, PlaintextNames, EMENames, GCMIV128, LongNames.''  The test
  \<open>TestIsFeatureFlagKnown\<close> checks the same five names.
\<close>

datatype flagIota = FlagPlaintextNames | FlagDirIV | FlagEMENames | FlagGCMIV128 | FlagLongNames

fun knownFlags :: "flagIota \<Rightarrow> string" where
  "knownFlags FlagPlaintextNames = ''PlaintextNames''"
| "knownFlags FlagDirIV = ''DirIV''"
| "knownFlags FlagEMENames = ''EMENames''"
| "knownFlags FlagGCMIV128 = ''GCMIV128''"
| "knownFlags FlagLongNames = ''LongNames''"

definition allFlags :: "flagIota list" where
  "allFlags = [FlagPlaintextNames, FlagDirIV, FlagEMENames, FlagGCMIV128, FlagLongNames]"

text \<open>Modelled from the spec: the current on-disk format version, ``current value 2''.\<close>

definition CurrentVersion :: "16 word" where
  "CurrentVersion = 2"

record ConfFile =
  Creator :: string
  EncryptedKey :: ciphertext
  ScryptObject :: scryptKdf
  Version :: "16 word"
  FeatureFlags :: "string list"
  filename :: string

definition isFeatureFlagKnown :: "string \<Rightarrow> bool" where
  "isFeatureFlagKnown flag = (flag \<in> set (map knownFlags allFlags))"

definition IsFeatureFlagSet :: "ConfFile \<Rightarrow> flagIota \<Rightarrow> bool" where
  "IsFeatureFlagSet cf flagWant = (knownFlags flagWant \<in> set (FeatureFlags cf))"

text \<open>
  The two constructors that wrapping and unwrapping call, \<open>cryptocore.New\<close> and
  \<open>contentenc.New\<close>, with their arguments: the world keeps the list of these calls,
  so that a statement can speak of the arguments at a call site.
\<close>

datatype ctorCall = CallNew keymat bool bool | CallContentEncNew CryptoCore nat

text \<open>
  The world of the config file: a file system (path to permission bits and content), a
  source of random bytes with a read position, the faults the operating system injects
  into the steps of \<open>WriteFile\<close> and into \<open>ReadFile\<close>, what was printed, and the
  constructor calls made so far.

  Modelled from the spec: a config file on disk is a JSON object with the fields
  \<open>Creator\<close>, \<open>EncryptedKey\<close>, \<open>ScryptObject\<close>, \<open>Version\<close>, \<open>FeatureFlags\<close>;
  \<open>filename\<close> is not exported.  The JSON encoding is kept symbolic (\<open>Json\<close> of the
  exported fields); any other content is \<open>Opaque\<close> and does not unmarshal.
\<close>

datatype filedata = Json string ciphertext scryptKdf "16 word" "string list" | Opaque "byte list"

record node =
  perm :: "32 word"
  content :: filedata

datatype step = StepOpen | StepMarshal | StepWrite | StepSync | StepClose | StepRename | StepRead

datatype message = DeprecatedFlag string | DeprecatedBanner | WarnUnmarshal | WarnUnlock

record sys =
  files :: "string \<rightharpoonup> node"
  rand :: "nat \<Rightarrow> byte"
  rpos :: nat
  fault :: "step \<Rightarrow> errno option"
  printed :: "message list"
  ctors :: "ctorCall list"

datatype error =
    SysErr errno
  | JsonErr
  | UnsupportedFormat "16 word"
  | UnsupportedFlag string
  | PasswordIncorrect

text \<open>
  Modelled from the spec: \<open>random_bytes(n)\<close>, the next \<open>n\<close> bytes of the random
  source.
\<close>

definition RandBytes :: "sys \<Rightarrow> nat \<Rightarrow> byte list \<times> sys" where
  "RandBytes s n = (map (rand s) [rpos s ..< rpos s + n], s\<lparr>rpos := rpos s + n\<rparr>)"

text \<open>
  Modelled from the spec: \<open>NewScryptKdf\<close> (not among the sources): a fresh random
  salt and cost \<open>2^logN\<close>.  The spec gives no values for r and p; they are arguments
  of the model (\<open>rp\<close>), and no theorem depends on them.  The key length is that of
  the crypto core.
\<close>

definition NewScryptKdf :: "nat \<times> nat \<Rightarrow> sys \<Rightarrow> int \<Rightarrow> scryptKdf \<times> sys" where
  "NewScryptKdf rp s logN =
     (let (salt, s') = RandBytes s KeyLen
      in (\<lparr>kdf_Salt = salt, kdf_N = 2 ^ nat logN, kdf_R = fst rp, kdf_P = snd rp, kdf_KeyLen = KeyLen\<rparr>, s'))"

text \<open>Modelled from the spec: \<open>scryptKdf.DeriveKey\<close>, scrypt of the password under the stored parameters.\<close>

definition DeriveKey :: "scryptKdf \<Rightarrow> string \<Rightarrow> keymat" where
  "DeriveKey kdf pw = ScryptOut (hmacKey pw) kdf"

text \<open>
  \<open>cryptocore.New\<close> and \<open>contentenc.New\<close> as they are called in this package: the
  call is entered in the list of constructor calls of the world.
\<close>

definition New_in :: "sys \<Rightarrow> keymat \<Rightarrow> bool \<Rightarrow> bool \<Rightarrow> (CryptoCore \<times> sys) outcome" where
  "New_in s key useOpenssl GCMIV128 =
     (case New key useOpenssl GCMIV128 of
        Panics \<Rightarrow> Panics
      | Returns cc \<Rightarrow> Returns (cc, s\<lparr>ctors := ctors s @ [CallNew key useOpenssl GCMIV128]\<rparr>))"

definition contentenc_New_in :: "sys \<Rightarrow> CryptoCore \<Rightarrow> nat \<Rightarrow> ContentEnc \<times> sys" where
  "contentenc_New_in s cc plainBS' =
     (contentenc_New cc plainBS', s\<lparr>ctors := ctors s @ [CallContentEncNew cc plainBS']\<rparr>)"

text \<open>
  \<open>ConfFile.EncryptKey\<close>: derive the password key, build the crypto core and the
  content encryption, seal the master key as block 0 with a nil file ID.
\<close>

definition EncryptKey :: "nat \<times> nat \<Rightarrow> ConfFile \<Rightarrow> sys \<Rightarrow> byte list \<Rightarrow> string \<Rightarrow> int \<Rightarrow> (ConfFile \<times> sys) outcome" where
  "EncryptKey rp cf s key password logN =
     (let (kdf, s1) = NewScryptKdf rp s logN;
          cf1 = cf\<lparr>ScryptObject := kdf\<rparr>;
          scryptHash = DeriveKey (ScryptObject cf1) password
      in case New_in s1 scryptHash False False of
           Panics \<Rightarrow> Panics
         | Returns (cc, s2) \<Rightarrow>
             let (ce, s3) = contentenc_New_in s2 cc 4096;
                 (nonce, s4) = RandBytes s3 (GcmIVGen (cryptoCore ce))
             in Returns (cf1\<lparr>EncryptedKey := EncryptBlock ce nonce key 0 []\<rparr>, s4))"

text \<open>\<open>json.MarshalIndent\<close> and \<open>json.Unmarshal\<close> on the symbolic document.\<close>

definition Marshal :: "ConfFile \<Rightarrow> filedata" where
  "Marshal cf = Json (Creator cf) (EncryptedKey cf) (ScryptObject cf) (Version cf) (FeatureFlags cf)"

fun Unmarshal :: "filedata \<Rightarrow> ConfFile \<Rightarrow> ConfFile option" where
  "Unmarshal (Json c k so v ffs) cf =
     Some (cf\<lparr>Creator := c, EncryptedKey := k, ScryptObject := so, Version := v, FeatureFlags := ffs\<rparr>)"
| "Unmarshal (Opaque bs) cf = None"

text \<open>
  \<open>ConfFile.WriteFile\<close>.  \<open>os.OpenFile\<close> with \<open>O_WRONLY|O_CREATE|O_EXCL\<close> and
  mode 0400 fails when the temporary path exists; every step can fail with an injected
  fault; a failed step changes nothing.  \<open>os.Rename\<close> replaces the final path by the
  temporary file.
\<close>

text \<open>The mode \<open>0400\<close> (octal) of the source: read permission for the owner, nothing else.\<close>

definition mode0400 :: "32 word" where
  "mode0400 = 0x100"

definition WriteFile :: "ConfFile \<Rightarrow> sys \<Rightarrow> error option \<times> sys" where
  "WriteFile cf s =
     (let tmp = filename cf @ ''.tmp'' in
      if files s tmp \<noteq> None then (Some (SysErr EEXIST), s)
      else case fault s StepOpen of Some e \<Rightarrow> (Some (SysErr e), s) | None \<Rightarrow>
        let s1 = s\<lparr>files := (files s)(tmp \<mapsto> \<lparr>perm = mode0400, content = Opaque []\<rparr>)\<rparr> in
        case fault s1 StepMarshal of Some e \<Rightarrow> (Some JsonErr, s1) | None \<Rightarrow>
        let js = Marshal cf in
        case fault s1 StepWrite of Some e \<Rightarrow> (Some (SysErr e), s1) | None \<Rightarrow>
        let s2 = s1\<lparr>files := (files s1)(tmp \<mapsto> \<lparr>perm = mode0400, content = js\<rparr>)\<rparr> in
        case fault s2 StepSync of Some e \<Rightarrow> (Some (SysErr e), s2) | None \<Rightarrow>
        case fault s2 StepClose of Some e \<Rightarrow> (Some (SysErr e), s2) | None \<Rightarrow>
        case fault s2 StepRename of Some e \<Rightarrow> (Some (SysErr e), s2) | None \<Rightarrow>
        (None, s2\<lparr>files := ((files s2)(tmp := None))(filename cf := files s2 tmp)\<rparr>))"

text \<open>The zero value of \<open>ConfFile\<close> (\<open>var cf ConfFile\<close>).\<close>

definition zeroConfFile :: ConfFile where
  "zeroConfFile =
     \<lparr>Creator = [], EncryptedKey = RawBytes [],
      ScryptObject = \<lparr>kdf_Salt = [], kdf_N = 0, kdf_R = 0, kdf_P = 0, kdf_KeyLen = 0\<rparr>,
      Version = 0, FeatureFlags = [], filename = []\<rparr>"

text \<open>
  \<open>CreateConfFile\<close>.  The random master key comes from \<open>RandBytes\<close>; the flags
  are appended in the order of the source.
\<close>

definition CreateConfFile ::
  "nat \<times> nat \<Rightarrow> sys \<Rightarrow> string \<Rightarrow> string \<Rightarrow> bool \<Rightarrow> int \<Rightarrow> string \<Rightarrow> (error option \<times> sys) outcome" where
  "CreateConfFile rp s filename' password plaintextNames logN creator =
     (let cf = zeroConfFile\<lparr>filename := filename', Creator := creator, Version := CurrentVersion\<rparr>;
          (key, s1) = RandBytes s KeyLen
      in case EncryptKey rp cf s1 key password logN of
           Panics \<Rightarrow> Panics
         | Returns (cf1, s2) \<Rightarrow>
             let cf2 = cf1\<lparr>FeatureFlags := FeatureFlags cf1 @ [knownFlags FlagGCMIV128]\<rparr>;
                 cf3 = (if plaintextNames
                        then cf2\<lparr>FeatureFlags := FeatureFlags cf2 @ [knownFlags FlagPlaintextNames]\<rparr>
                        else cf2\<lparr>FeatureFlags := FeatureFlags cf2 @ [knownFlags FlagDirIV]
                                      @ [knownFlags FlagEMENames] @ [knownFlags FlagLongNames]\<rparr>)
             in Returns (WriteFile cf3 s2))"

text \<open>\<open>ioutil.ReadFile\<close>: an injected fault, a missing file, or the content.\<close>

definition ReadFile :: "sys \<Rightarrow> string \<Rightarrow> errno + filedata" where
  "ReadFile s path =
     (case fault s StepRead of
        Some e \<Rightarrow> Inl e
      | None \<Rightarrow> (case files s path of None \<Rightarrow> Inl ENOENT | Some n \<Rightarrow> Inr (content n)))"

text \<open>
  \<open>LoadConfFile\<close>.  The lists \<open>requiredFlagsNormal\<close> and
  \<open>requiredFlagsPlaintextNames\<close> are package variables that are not among the
  sources; they are parameters.  The first loop returns at the first unknown flag
  (\<open>find\<close>); the second prints one line per missing flag and the banner after it.
\<close>

definition LoadConfFile ::
  "flagIota list \<Rightarrow> flagIota list \<Rightarrow> sys \<Rightarrow> string \<Rightarrow> string
     \<Rightarrow> ((error + byte list \<times> ConfFile) \<times> sys) outcome" where
  "LoadConfFile requiredFlagsNormal requiredFlagsPlaintextNames s filename' password =
     (let cf0 = zeroConfFile\<lparr>filename := filename'\<rparr> in
      case ReadFile s filename' of
        Inl e \<Rightarrow> Returns (Inl (SysErr e), s)
      | Inr js \<Rightarrow>
      (case Unmarshal js cf0 of
        None \<Rightarrow> Returns (Inl JsonErr, s\<lparr>printed := printed s @ [WarnUnmarshal]\<rparr>)
      | Some cf \<Rightarrow>
        if Version cf \<noteq> CurrentVersion then Returns (Inl (UnsupportedFormat (Version cf)), s)
        else
        (case find (\<lambda>flag. \<not> isFeatureFlagKnown flag) (FeatureFlags cf) of
          Some flag \<Rightarrow> Returns (Inl (UnsupportedFlag flag), s)
        | None \<Rightarrow>
          let requiredFlags = (if IsFeatureFlagSet cf FlagPlaintextNames
                               then requiredFlagsPlaintextNames else requiredFlagsNormal);
              missing = filter (\<lambda>i. \<not> IsFeatureFlagSet cf i) requiredFlags;
              deprecatedFs = (missing \<noteq> []);
              s1 = s\<lparr>printed := printed s @ map (\<lambda>i. DeprecatedFlag (knownFlags i)) missing
                                    @ (if deprecatedFs then [DeprecatedBanner] else [])\<rparr>;
              scryptHash = DeriveKey (ScryptObject cf) password
          in (case New_in s1 scryptHash False False of
                Panics \<Rightarrow> Panics
              | Returns (cc, s2) \<Rightarrow>
                  let (ce, s3) = contentenc_New_in s2 cc 4096 in
                  (case DecryptBlock ce (EncryptedKey cf) 0 [] of
                     Inl err \<Rightarrow> Returns (Inl PasswordIncorrect, s3\<lparr>printed := printed s3 @ [WarnUnlock]\<rparr>)
                   | Inr key \<Rightarrow> Returns (Inr (key, cf), s3))))))"


text \<open>
  The content encryption that the claims about the wrapped master key speak of, written
  down from their words: Go's GCM with 96-bit (12-byte) nonces, no OpenSSL, plaintext
  block size 4096.  The theorems compare what the source builds with it.
\<close>

definition keyWrapContentEnc :: "keymat \<Rightarrow> ContentEnc" where
  "keyWrapContentEnc k =
     \<lparr>cryptoCore = \<lparr>BlockCipher = k, Gcm = GoGCM k 12, GcmIVGen = 12, IVLen = 12\<rparr>,
      plainBS = 4096, cipherBS = 4096 + 12 + 16\<rparr>"

subsection \<open>Fixtures of the config file\<close>

text \<open>
  Concrete worlds for the closed instances below: an empty file system without faults
  (\<open>sys0\<close>), and one holding an outdated version-1 file, a file with an unknown
  feature flag and a legacy file that lacks required flags (\<open>sysFix\<close>), after the
  fixtures of \<open>config_test\<close>.
\<close>

definition sys0 :: sys where
  "sys0 = \<lparr>files = Map.empty, rand = (\<lambda>i. word_of_nat i), rpos = 0, fault = (\<lambda>st. None), printed = [],
      ctors = []\<rparr>"

definition kdfFix :: scryptKdf where
  "kdfFix = \<lparr>kdf_Salt = [1, 2, 3], kdf_N = 1024, kdf_R = 8, kdf_P = 1, kdf_KeyLen = 32\<rparr>"

definition keyFix :: "byte list" where
  "keyFix = [7, 7, 7, 7]"

definition blobFix :: ciphertext where
  "blobFix = Sealed (DeriveKey kdfFix ''test'') [0, 0, 0, 0, 0, 0, 0, 0, 0, 0, 0, 0] 0 [] keyFix"

definition sysFix :: sys where
  "sysFix = sys0\<lparr>files :=
     [''v1.conf'' \<mapsto> \<lparr>perm = mode0400, content = Json ''old'' blobFix kdfFix 1 []\<rparr>,
      ''StrangeFeature.conf'' \<mapsto> \<lparr>perm = mode0400,
          content = Json ''x'' blobFix kdfFix 2 [''GCMIV128'', ''StrangeFeature'']\<rparr>,
      ''legacy.conf'' \<mapsto> \<lparr>perm = mode0400, content = Json ''v0.6'' blobFix kdfFix 2 [''DirIV'']\<rparr>,
      ''PlaintextNames.conf'' \<mapsto> \<lparr>perm = mode0400,
          content = Json ''v1.0'' blobFix kdfFix 2 [''GCMIV128'', ''PlaintextNames'']\<rparr>]\<rparr>"

definition confFix :: ConfFile where
  "confFix = \<lparr>Creator = ''v1.0'', EncryptedKey = blobFix, ScryptObject = kdfFix, Version = 2,
      FeatureFlags = [''GCMIV128'', ''PlaintextNames''], filename = ''legacy.conf''\<rparr>"

text \<open>
  The world after \<open>CreateConfFile\<close> has run in \<open>sys0\<close> for the path
  \<open>t.conf\<close>, the password \<open>foo\<close>, encrypted names, cost 10 and the scrypt
  parameters r = 8 and p = 1: the master key is the first 32 bytes of the random source,
  the salt the next 32, the nonce the 12 after them.
\<close>

definition keyCreated :: "byte list" where
  "keyCreated = map word_of_nat [0 ..< 32]"

definition kdfCreated :: scryptKdf where
  "kdfCreated = \<lparr>kdf_Salt = map word_of_nat [32 ..< 64], kdf_N = 1024, kdf_R = 8, kdf_P = 1, kdf_KeyLen = 32\<rparr>"

definition sysCreated :: sys where
  "sysCreated = sys0\<lparr>rpos := 76,
      ctors := [CallNew (DeriveKey kdfCreated ''foo'') False False,
                CallContentEncNew \<lparr>BlockCipher = DeriveKey kdfCreated ''foo'',
                    Gcm = GoGCM (DeriveKey kdfCreated ''foo'') 12, GcmIVGen = 12, IVLen = 12\<rparr> 4096],
      files := [''t.conf'' \<mapsto> \<lparr>perm = mode0400,
          content = Json ''v1.0'' (Sealed (DeriveKey kdfCreated ''foo'') (map word_of_nat [64 ..< 76]) 0 [] keyCreated)
                      kdfCreated 2 [''GCMIV128'', ''DirIV'', ''EMENames'', ''LongNames'']\<rparr>]\<rparr>"

text \<open>What a caller of \<open>LoadConfFile\<close> gets apart from the config object: the key or the error.\<close>

definition keyOrError :: "((error + byte list \<times> ConfFile) \<times> sys) outcome \<Rightarrow> (error + byte list) outcome" where
  "keyOrError r = map_outcome (\<lambda>x. map_sum id fst (fst x)) r"

section \<open>Package fusefrontend: the file handle\<close>

subsection \<open>Status values and errors\<close>

text \<open>
  \<open>fuse.Status\<close>: \<open>OK\<close> or an error number.  A Go \<open>error\<close> that the handle sees
  is \<open>io.EOF\<close>, an error number from a system call, or another error value (a header
  that does not parse).  \<open>fuse.ToStatus\<close> belongs to the FUSE library: an error number
  becomes the status of that number, any other error value becomes \<open>ENOSYS\<close>.
\<close>

datatype status = OK | Status errno

datatype goerr = EOF | Errno errno | OtherError

fun ToStatus :: "goerr \<Rightarrow> status" where
  "ToStatus (Errno e) = Status e"
| "ToStatus EOF = Status ENOSYS"
| "ToStatus OtherError = Status ENOSYS"

subsection \<open>Package contentenc: block geometry\<close>

text \<open>
  Modelled from the spec: the block descriptor of \<open>explode_plain_range\<close> (package
  \<open>contentenc\<close> is not among the sources).  ``Each descriptor carries: block number;
  byte offset within the block at which the covered region begins (Skip); length of the
  covered region within that block; a flag indicating whether the block is only partially
  covered.''  The flag is the function \<open>IsPartial\<close>.
\<close>

record intraBlock =
  BlockNo :: nat
  Skip :: nat
  Length :: nat

definition IsPartial :: "ContentEnc \<Rightarrow> intraBlock \<Rightarrow> bool" where
  "IsPartial be ib = (Skip ib > 0 \<or> Length ib < plainBS be)"

text \<open>
  Modelled from the spec: the conversions between plaintext offsets, block numbers and
  ciphertext offsets.  ``Each block is addressed by a zero-based block number relative to
  the file start (the header is not a block)''; ``ciphertext file size for a file with k
  blocks and h-byte header is h + k (B + nonce_len + tag_len) for full blocks, with the
  last block possibly shorter''.  The header length \<open>h\<close> is a package constant that is
  not among the sources; it is the argument \<open>hl\<close>.
\<close>

definition PlainOffToBlockNo :: "ContentEnc \<Rightarrow> nat \<Rightarrow> nat" where
  "PlainOffToBlockNo be plainOffset = plainOffset div plainBS be"

definition BlockNoToPlainOff :: "ContentEnc \<Rightarrow> nat \<Rightarrow> nat" where
  "BlockNoToPlainOff be blockNo = blockNo * plainBS be"

definition BlockNoToCipherOff :: "nat \<Rightarrow> ContentEnc \<Rightarrow> nat \<Rightarrow> nat" where
  "BlockNoToCipherOff hl be blockNo = hl + blockNo * cipherBS be"

definition CipherSizeToPlainSize :: "nat \<Rightarrow> ContentEnc \<Rightarrow> nat \<Rightarrow> nat" where
  "CipherSizeToPlainSize hl be cipherSize =
     (if cipherSize \<le> hl then 0
      else
        let blockCount = (cipherSize - hl - 1) div cipherBS be + 1;
            overhead = (cipherBS be - plainBS be) * blockCount + hl
        in cipherSize - overhead)"

definition PlaintextRange :: "ContentEnc \<Rightarrow> intraBlock \<Rightarrow> nat \<times> nat" where
  "PlaintextRange be ib = (BlockNoToPlainOff be (BlockNo ib), plainBS be)"

definition CiphertextRange :: "nat \<Rightarrow> ContentEnc \<Rightarrow> intraBlock \<Rightarrow> nat \<times> nat" where
  "CiphertextRange hl be ib = (BlockNoToCipherOff hl be (BlockNo ib), cipherBS be)"

text \<open>
  Modelled from the spec: \<open>explode_plain_range(offset, length)\<close>, whose descriptors
  ``cover exactly [off, off+len)'': block by block, each descriptor takes what is left
  of the range or what is left of its block, whichever is less.  A block size of 0
  describes no block.
\<close>

function ExplodePlainRange :: "ContentEnc \<Rightarrow> nat \<Rightarrow> nat \<Rightarrow> intraBlock list" where
  "ExplodePlainRange be offset len =
     (if len = 0 \<or> plainBS be = 0 then []
      else
        let blockNo = PlainOffToBlockNo be offset;
            skip = offset - BlockNoToPlainOff be blockNo;
            l = min len (plainBS be - skip)
        in \<lparr>BlockNo = blockNo, Skip = skip, Length = l\<rparr> # ExplodePlainRange be (offset + l) (len - l))"
  by pat_completeness auto
termination
proof (relation "measure (\<lambda>(be, offset, len). len)")
  show "wf (measure (\<lambda>(be, offset, len). len))" by simp
next
  fix be :: ContentEnc and offset len blockNo skip l :: nat
  assume a: "\<not> (len = 0 \<or> plainBS be = 0)"
    and b: "blockNo = PlainOffToBlockNo be offset"
    and s: "skip = offset - BlockNoToPlainOff be blockNo"
    and l: "l = min len (plainBS be - skip)"
  have "offset - offset div plainBS be * plainBS be = offset mod plainBS be"
    by (simp add: minus_div_mult_eq_mod)
  then have "skip < plainBS be"
    using a b s by (simp add: PlainOffToBlockNo_def BlockNoToPlainOff_def)
  then have "0 < l" using a l by simp
  then show "((be, offset + l, len - l), (be, offset, len)) \<in> measure (\<lambda>(be, offset, len). len)"
    using a by simp
qed

declare ExplodePlainRange.simps [simp del]

text \<open>
  Modelled from the spec: \<open>joint_ciphertext_range(blocks)\<close>, ``the minimal contiguous
  ciphertext byte range covering the blocks''.  The caller has checked that there is a
  first block.
\<close>

definition JointCiphertextRange :: "nat \<Rightarrow> ContentEnc \<Rightarrow> intraBlock list \<Rightarrow> nat \<times> nat" where
  "JointCiphertextRange hl be blocks =
     (let offset = BlockNoToCipherOff hl be (BlockNo (hd blocks));
          offsetLast = BlockNoToCipherOff hl be (BlockNo (last blocks))
      in (offset, offsetLast + cipherBS be - offset))"

subsection \<open>The environment of a handle\<close>

text \<open>
  A handle talks to its backing descriptor, to the byte-level functions of package
  \<open>contentenc\<close> (which draw nonces and decide authenticity), to its own reader/writer
  lock and to the write-lock table.  None of them is among the sources, so all of them
  are one environment: every call is appended to a trace, and the environment answers it
  as a function of the calls made so far.  Quantifying over the environment covers every
  behaviour of the operating system and of the cipher, failures included.
\<close>

datatype call =
    CReadAt nat nat
  | CWriteAt "byte list" nat
  | CPrealloc nat nat
  | CStat
  | CFstat
  | CFtruncate nat
  | CClose
  | CDup
  | CCloseDup
  | CFsync
  | CChmod nat
  | CChown nat nat
  | CUtimesNano
  | CRandomHeader
  | CPack "byte list"
  | CParseHeader "byte list"
  | CEncryptBlock "byte list" nat "byte list"
  | CDecryptBlocks "byte list" nat "byte list"
  | CMergeBlocks "byte list" "byte list" nat
  | CRLock
  | CRUnlock
  | CLock
  | CUnlock
  | CWlockRegister nat
  | CWlockLock nat
  | CWlockUnlock nat
  | CWlockUnregister nat

record reply =
  r_err :: "goerr option"
  r_bytes :: "byte list"
  r_num :: nat

record env =
  answer :: "call list \<Rightarrow> call \<Rightarrow> reply"
  HEADER_LEN :: nat

definition ask :: "env \<Rightarrow> call list \<Rightarrow> call \<Rightarrow> reply \<times> call list" where
  "ask E tr c = (answer E tr c, tr @ [c])"

subsection \<open>The handle\<close>

record FileHeader =
  Id :: "byte list"

text \<open>
  The struct \<open>file\<close>.  The descriptor \<open>fd\<close> and the lock \<open>fdLock\<close> live in the
  environment; the handle keeps the flags, the geometry of its content encryption, the
  inode number and the cached header (\<open>None\<close> is Go's \<open>nil\<close>).
\<close>

record fileHandle =
  released :: bool
  writeOnly :: bool
  contentEnc :: ContentEnc
  ino :: nat
  header :: "FileHeader option"

type_synonym state = "fileHandle \<times> call list"

text \<open>\<open>NewFile\<close>: \<open>Fstat\<close> the descriptor, register the inode in the write-lock table.\<close>

definition NewFile :: "env \<Rightarrow> call list \<Rightarrow> bool \<Rightarrow> ContentEnc \<Rightarrow> (fileHandle option \<times> status) \<times> call list" where
  "NewFile E tr writeOnly' contentEnc' =
     (let (st, tr1) = ask E tr CFstat in
      case r_err st of
        Some e \<Rightarrow> ((None, ToStatus e), tr1)
      | None \<Rightarrow>
          ((Some \<lparr>released = False, writeOnly = writeOnly', contentEnc = contentEnc',
                   ino = r_num st, header = None\<rparr>, OK),
           tr1 @ [CWlockRegister (r_num st)]))"

text \<open>\<open>readHeader\<close>: \<open>io.EOF\<close> when the file is empty.\<close>

definition readHeader :: "env \<Rightarrow> state \<Rightarrow> goerr option \<times> state" where
  "readHeader E \<sigma> =
     (let (f, tr) = \<sigma>;
          (buf, tr1) = ask E tr (CReadAt (HEADER_LEN E) 0)
      in case r_err buf of
           Some e \<Rightarrow> (Some e, (f, tr1))
         | None \<Rightarrow>
             let (h, tr2) = ask E tr1 (CParseHeader (r_bytes buf))
             in case r_err h of
                  Some e \<Rightarrow> (Some e, (f, tr2))
                | None \<Rightarrow> (None, (f\<lparr>header := Some \<lparr>Id = r_bytes h\<rparr>\<rparr>, tr2)))"

text \<open>\<open>createHeader\<close>: a random header, preallocation of its space, then the write.\<close>

definition createHeader :: "env \<Rightarrow> state \<Rightarrow> goerr option \<times> state" where
  "createHeader E \<sigma> =
     (let (f, tr) = \<sigma>;
          (h, tr1) = ask E tr CRandomHeader;
          (buf, tr2) = ask E tr1 (CPack (r_bytes h));
          (pa, tr3) = ask E tr2 (CPrealloc 0 (HEADER_LEN E))
      in case r_err pa of
           Some e \<Rightarrow> (Some e, (f, tr3))
         | None \<Rightarrow>
             let (w, tr4) = ask E tr3 (CWriteAt (r_bytes buf) 0)
             in case r_err w of
                  Some e \<Rightarrow> (Some e, (f, tr4))
                | None \<Rightarrow> (None, (f\<lparr>header := Some \<lparr>Id = r_bytes h\<rparr>\<rparr>, tr4)))"

text \<open>
  \<open>doRead\<close>.  \<open>blocks[0]\<close> panics on an empty range; \<open>f.header.Id\<close> panics on a nil
  header.  The buffer of \<open>ReadAt\<close> is cut down to the bytes read.
\<close>

definition doRead :: "env \<Rightarrow> state \<Rightarrow> nat \<Rightarrow> nat \<Rightarrow> (state \<times> byte list \<times> status) outcome" where
  "doRead E \<sigma> off len =
     (let (e0, \<sigma>1) = (if header (fst \<sigma>) = None then readHeader E \<sigma> else (None, \<sigma>)) in
      if e0 = Some EOF then Returns (\<sigma>1, [], OK)
      else case e0 of
        Some e \<Rightarrow> Returns (\<sigma>1, [], ToStatus e)
      | None \<Rightarrow>
        let (f, tr) = \<sigma>1;
            hl = HEADER_LEN E;
            blocks = ExplodePlainRange (contentEnc f) off len
        in if blocks = [] then Panics
           else
             let (alignedOffset, alignedLength) = JointCiphertextRange hl (contentEnc f) blocks;
                 skip = Skip (hd blocks);
                 (rd, tr1) = ask E tr (CReadAt alignedLength alignedOffset)
             in if r_err rd \<noteq> None \<and> r_err rd \<noteq> Some EOF
                then Returns ((f, tr1), [], ToStatus (the (r_err rd)))
                else
                  let ciphertext = take alignedLength (r_bytes rd);
                      firstBlockNo = BlockNo (hd blocks)
                  in case header f of
                       None \<Rightarrow> Panics
                     | Some h \<Rightarrow>
                         let (dec, tr2) = ask E tr1 (CDecryptBlocks ciphertext firstBlockNo (Id h));
                             plaintext = r_bytes dec
                         in if r_err dec \<noteq> None then Returns ((f, tr2), [], Status EIO)
                            else
                              let lenHave = length plaintext;
                                  lenWant = skip + len;
                                  out = (if lenHave > lenWant then take (lenWant - skip) (drop skip plaintext)
                                         else if lenHave > skip then drop skip plaintext
                                         else [])
                              in Returns ((f, tr2), out, OK))"

text \<open>\<open>Read\<close>.  The deferred \<open>RUnlock\<close> runs on every return.\<close>

definition Read :: "env \<Rightarrow> state \<Rightarrow> nat \<Rightarrow> nat \<Rightarrow> (state \<times> byte list \<times> status) outcome" where
  "Read E \<sigma> buflen off =
     (let (f, tr) = \<sigma>; tr1 = tr @ [CRLock] in
      if writeOnly f then Returns ((f, tr1 @ [CRUnlock]), [], Status EBADF)
      else case doRead E (f, tr1) off buflen of
             Panics \<Rightarrow> Panics
           | Returns ((f2, tr2), out, status) \<Rightarrow>
               if status \<noteq> OK then Returns ((f2, tr2 @ [CRUnlock]), [], status)
               else Returns ((f2, tr2 @ [CRUnlock]), out, status))"

text \<open>
  \<open>doWrite\<close>.  The loop over the blocks is \<open>doWrite_loop\<close>; it carries what is left
  of the data buffer and the bytes written so far.  Its first section, ``Incomplete block
  -> Read-Modify-Write'', is \<open>doWrite_rmw\<close>: it yields the block data to encrypt
  (\<open>Inr\<close>), or the status of a failed read (\<open>Inl\<close>), on which the function returns.
  Both that \<open>return\<close> and the two \<open>break\<close>s leave the function with
  \<open>(written, status)\<close>.  The order inside the loop is the source's: read-modify-write,
  encrypt, preallocate, write.
\<close>

definition doWrite_rmw :: "env \<Rightarrow> state \<Rightarrow> intraBlock \<Rightarrow> byte list \<Rightarrow> (state \<times> (status + byte list)) outcome" where
  "doWrite_rmw E \<sigma> b blockData =
     (let be = contentEnc (fst \<sigma>) in
      if IsPartial be b
      then (let (o', l') = PlaintextRange be b in
            case doRead E \<sigma> o' (plainBS be) of
              Panics \<Rightarrow> Panics
            | Returns (\<sigma>1, oldData, status) \<Rightarrow>
                if status \<noteq> OK then Returns (\<sigma>1, Inl status)
                else
                  let (m, tr2) = ask E (snd \<sigma>1) (CMergeBlocks oldData blockData (Skip b))
                  in Returns ((fst \<sigma>1, tr2), Inr (r_bytes m)))
      else Returns (\<sigma>, Inr blockData))"

fun doWrite_loop :: "env \<Rightarrow> state \<Rightarrow> byte list \<Rightarrow> intraBlock list \<Rightarrow> nat \<Rightarrow> (state \<times> nat \<times> status) outcome" where
  "doWrite_loop E \<sigma> dataBuf [] written = Returns (\<sigma>, written, OK)"
| "doWrite_loop E \<sigma> dataBuf (b # bs) written =
     (let be = contentEnc (fst \<sigma>);
          hl = HEADER_LEN E;
          blockData = take (Length b) dataBuf;
          dataBuf' = drop (Length b) dataBuf
      in case doWrite_rmw E \<sigma> b blockData of
           Panics \<Rightarrow> Panics
         | Returns (\<sigma>2, Inl status) \<Rightarrow> Returns (\<sigma>2, written, status)
         | Returns ((f, tr), Inr blockData2) \<Rightarrow>
             let (blockOffset, blockLen) = CiphertextRange hl be b
             in case header f of
                  None \<Rightarrow> Panics
                | Some h \<Rightarrow>
                    let (enc, tr3) = ask E tr (CEncryptBlock blockData2 (BlockNo b) (Id h));
                        (pa, tr4) = ask E tr3 (CPrealloc blockOffset blockLen)
                    in case r_err pa of
                         Some e \<Rightarrow> Returns ((f, tr4), written, ToStatus e)
                       | None \<Rightarrow>
                           let (w, tr5) = ask E tr4 (CWriteAt (r_bytes enc) blockOffset)
                           in case r_err w of
                                Some e \<Rightarrow> Returns ((f, tr5), written, ToStatus e)
                              | None \<Rightarrow> doWrite_loop E (f, tr5) dataBuf' bs (written + Length b))"

definition doWrite :: "env \<Rightarrow> state \<Rightarrow> byte list \<Rightarrow> nat \<Rightarrow> (state \<times> nat \<times> status) outcome" where
  "doWrite E \<sigma> data off =
     (let (e0, \<sigma>1) =
            (if header (fst \<sigma>) = None
             then (let (e1, \<sigma>') = readHeader E \<sigma>
                   in if e1 = Some EOF then createHeader E \<sigma>' else (e1, \<sigma>'))
             else (None, \<sigma>))
      in case e0 of
           Some e \<Rightarrow> Returns (\<sigma>1, 0, ToStatus e)
         | None \<Rightarrow>
             doWrite_loop E \<sigma>1 data (ExplodePlainRange (contentEnc (fst \<sigma>1)) off (length data)) 0)"

text \<open>
  \<open>Write\<close>.  \<open>createsHole\<close> and \<open>zeroPad\<close> are methods of the handle that are not
  among the sources; they are the parameters \<open>ch\<close> and \<open>zp\<close>.  As in the source,
  \<open>zeroPad\<close> is given the plaintext size only.  The deferred unlocks run in reverse
  order on every return.
\<close>

definition Write ::
  "(fileHandle \<Rightarrow> nat \<Rightarrow> nat \<Rightarrow> bool) \<Rightarrow> (env \<Rightarrow> state \<Rightarrow> nat \<Rightarrow> (state \<times> status) outcome)
     \<Rightarrow> env \<Rightarrow> state \<Rightarrow> byte list \<Rightarrow> nat \<Rightarrow> (state \<times> nat \<times> status) outcome" where
  "Write ch zp E \<sigma> data off =
     (let (f, tr) = \<sigma>; tr1 = tr @ [CRLock] in
      if released f then Returns ((f, tr1 @ [CRUnlock]), 0, Status EBADF)
      else
        let tr2 = tr1 @ [CWlockLock (ino f)];
            (fi, tr3) = ask E tr2 CStat
        in case r_err fi of
             Some e \<Rightarrow> Returns ((f, tr3 @ [CWlockUnlock (ino f), CRUnlock]), 0, ToStatus e)
           | None \<Rightarrow>
               let plainSize = CipherSizeToPlainSize (HEADER_LEN E) (contentEnc f) (r_num fi);
                   padded = (if ch f plainSize off then zp E (f, tr3) plainSize
                             else Returns ((f, tr3), OK))
               in case padded of
                    Panics \<Rightarrow> Panics
                  | Returns ((f4, tr4), status) \<Rightarrow>
                      if status \<noteq> OK
                      then Returns ((f4, tr4 @ [CWlockUnlock (ino f), CRUnlock]), 0, status)
                      else case doWrite E (f4, tr4) data off of
                             Panics \<Rightarrow> Panics
                           | Returns ((f5, tr5), written, st5) \<Rightarrow>
                               Returns ((f5, tr5 @ [CWlockUnlock (ino f), CRUnlock]), written, st5))"

text \<open>
  \<open>Release\<close>: the only user of the exclusive lock.  \<open>Release_locked\<close> is the
  section from \<open>fdLock.Lock()\<close> to \<open>fdLock.Unlock()\<close>; a second release panics in
  it (\<open>log.Panicf\<close>).  The result of \<open>fd.Close()\<close> is dropped, as in the source.
\<close>

definition Release_locked :: "env \<Rightarrow> state \<Rightarrow> state outcome" where
  "Release_locked E \<sigma> =
     (let (f, tr) = \<sigma>; tr1 = tr @ [CLock] in
      if released f then Panics
      else
        let (c, tr2) = ask E tr1 CClose;
            f' = f\<lparr>released := True\<rparr>
        in Returns (f', tr2 @ [CUnlock]))"

definition Release :: "env \<Rightarrow> state \<Rightarrow> state outcome" where
  "Release E \<sigma> =
     (case Release_locked E \<sigma> of
        Panics \<Rightarrow> Panics
      | Returns (f', tr3) \<Rightarrow> Returns (f', tr3 @ [CWlockUnregister (ino f')]))"

text \<open>\<open>Flush\<close>: duplicate the descriptor and close the duplicate.\<close>

definition Flush :: "env \<Rightarrow> state \<Rightarrow> state \<times> status" where
  "Flush E \<sigma> =
     (let (f, tr) = \<sigma>; tr1 = tr @ [CRLock];
          (newFd, tr2) = ask E tr1 CDup
      in case r_err newFd of
           Some e \<Rightarrow> ((f, tr2 @ [CRUnlock]), ToStatus e)
         | None \<Rightarrow>
             let (c, tr3) = ask E tr2 CCloseDup
             in ((f, tr3 @ [CRUnlock]), (case r_err c of None \<Rightarrow> OK | Some e \<Rightarrow> ToStatus e)))"

definition Fsync :: "env \<Rightarrow> state \<Rightarrow> state \<times> status" where
  "Fsync E \<sigma> =
     (let (f, tr) = \<sigma>; tr1 = tr @ [CRLock];
          (r, tr2) = ask E tr1 CFsync
      in ((f, tr2 @ [CRUnlock]), (case r_err r of None \<Rightarrow> OK | Some e \<Rightarrow> ToStatus e)))"

text \<open>
  \<open>Truncate\<close>.  The loop of the growing branch is \<open>Truncate_grow\<close>: a partial block
  is written as zero bytes through \<open>doWrite\<close>; for any other block the backing file is
  only extended by \<open>Ftruncate\<close> to the end of the block's ciphertext range.
\<close>

fun Truncate_grow :: "env \<Rightarrow> state \<Rightarrow> intraBlock list \<Rightarrow> (state \<times> status) outcome" where
  "Truncate_grow E \<sigma> [] = Returns (\<sigma>, OK)"
| "Truncate_grow E \<sigma> (b # bs) =
     (let be = contentEnc (fst \<sigma>); hl = HEADER_LEN E in
      if IsPartial be b
      then
        (let (off, l') = PlaintextRange be b;
             off' = off + Skip b
         in case doWrite E \<sigma> (replicate (Length b) 0) off' of
              Panics \<Rightarrow> Panics
            | Returns (\<sigma>1, n, status) \<Rightarrow>
                if status \<noteq> OK then Returns (\<sigma>1, status) else Truncate_grow E \<sigma>1 bs)
      else
        (let (off, len) = CiphertextRange hl be b;
             (r, tr1) = ask E (snd \<sigma>) (CFtruncate (off + len))
         in case r_err r of
              Some e \<Rightarrow> Returns ((fst \<sigma>, tr1), ToStatus e)
            | None \<Rightarrow> Truncate_grow E (fst \<sigma>, tr1) bs))"

definition Truncate :: "env \<Rightarrow> state \<Rightarrow> nat \<Rightarrow> (state \<times> status) outcome" where
  "Truncate E \<sigma> newSize =
     (let (f, tr) = \<sigma>; tr1 = tr @ [CRLock] in
      if released f then Returns ((f, tr1 @ [CRUnlock]), Status EBADF)
      else
        let tr2 = tr1 @ [CWlockLock (ino f)];
            unlock = [CWlockUnlock (ino f), CRUnlock];
            be = contentEnc f;
            hl = HEADER_LEN E
        in
        if newSize = 0
        then (let (r, tr3) = ask E tr2 (CFtruncate 0)
              in case r_err r of
                   Some e \<Rightarrow> Returns ((f, tr3 @ unlock), ToStatus e)
                 | None \<Rightarrow> Returns ((f\<lparr>header := None\<rparr>, tr3 @ unlock), OK))
        else
          let (fi, tr3) = ask E tr2 CStat
          in case r_err fi of
               Some e \<Rightarrow> Returns ((f, tr3 @ unlock), ToStatus e)
             | None \<Rightarrow>
                 let oldSize = CipherSizeToPlainSize hl be (r_num fi) in
                 if newSize = oldSize then Returns ((f, tr3 @ unlock), OK)
                 else if newSize > oldSize
                 then
                   (let (e0, \<sigma>1) = (if oldSize = 0 then createHeader E (f, tr3) else (None, (f, tr3)))
                    in case e0 of
                         Some e \<Rightarrow> Returns ((fst \<sigma>1, snd \<sigma>1 @ unlock), ToStatus e)
                       | None \<Rightarrow>
                           (case Truncate_grow E \<sigma>1 (ExplodePlainRange be oldSize (newSize - oldSize)) of
                              Panics \<Rightarrow> Panics
                            | Returns ((f2, tr4), st) \<Rightarrow> Returns ((f2, tr4 @ unlock), st)))
                 else
                   (let blockNo = PlainOffToBlockNo be newSize;
                        cipherOff = BlockNoToCipherOff hl be blockNo;
                        plainOff = BlockNoToPlainOff be blockNo;
                        lastBlockLen = newSize - plainOff;
                        rd = (if lastBlockLen > 0 then doRead E (f, tr3) plainOff lastBlockLen
                              else Returns ((f, tr3), [], OK))
                    in case rd of
                         Panics \<Rightarrow> Panics
                       | Returns ((f4, tr4), data, status) \<Rightarrow>
                           if status \<noteq> OK then Returns ((f4, tr4 @ unlock), status)
                           else
                             let (r, tr5) = ask E tr4 (CFtruncate cipherOff)
                             in case r_err r of
                                  Some e \<Rightarrow> Returns ((f4, tr5 @ unlock), ToStatus e)
                                | None \<Rightarrow>
                                    if lastBlockLen > 0
                                    then (case doWrite E (f4, tr5) data plainOff of
                                            Panics \<Rightarrow> Panics
                                          | Returns ((f6, tr6), n, st) \<Rightarrow> Returns ((f6, tr6 @ unlock), st))
                                    else Returns ((f4, tr5 @ unlock), OK)))"

text \<open>The pass-through operations and \<open>Allocate\<close>, which takes no lock and always refuses.\<close>

definition Chmod :: "env \<Rightarrow> state \<Rightarrow> nat \<Rightarrow> state \<times> status" where
  "Chmod E \<sigma> mode =
     (let (f, tr) = \<sigma>; tr1 = tr @ [CRLock];
          (r, tr2) = ask E tr1 (CChmod mode)
      in ((f, tr2 @ [CRUnlock]), (case r_err r of None \<Rightarrow> OK | Some e \<Rightarrow> ToStatus e)))"

definition Chown :: "env \<Rightarrow> state \<Rightarrow> nat \<Rightarrow> nat \<Rightarrow> state \<times> status" where
  "Chown E \<sigma> uid gid =
     (let (f, tr) = \<sigma>; tr1 = tr @ [CRLock];
          (r, tr2) = ask E tr1 (CChown uid gid)
      in ((f, tr2 @ [CRUnlock]), (case r_err r of None \<Rightarrow> OK | Some e \<Rightarrow> ToStatus e)))"

definition GetAttr :: "env \<Rightarrow> state \<Rightarrow> state \<times> nat \<times> status" where
  "GetAttr E \<sigma> =
     (let (f, tr) = \<sigma>; tr1 = tr @ [CRLock];
          (st, tr2) = ask E tr1 CFstat
      in case r_err st of
           Some e \<Rightarrow> ((f, tr2 @ [CRUnlock]), 0, ToStatus e)
         | None \<Rightarrow> ((f, tr2 @ [CRUnlock]),
                      CipherSizeToPlainSize (HEADER_LEN E) (contentEnc f) (r_num st), OK))"

definition Allocate :: "env \<Rightarrow> state \<Rightarrow> nat \<Rightarrow> nat \<Rightarrow> nat \<Rightarrow> state \<times> status" where
  "Allocate E \<sigma> off sz mode = (\<sigma>, Status ENOSYS)"

definition Utimens :: "env \<Rightarrow> state \<Rightarrow> state \<times> status" where
  "Utimens E \<sigma> =
     (let (f, tr) = \<sigma>; tr1 = tr @ [CRLock];
          (r, tr2) = ask E tr1 CUtimesNano
      in ((f, tr2 @ [CRUnlock]),
          (if r_err r = Some (Errno ENOENT) then Status EBADF
           else case r_err r of None \<Rightarrow> OK | Some e \<Rightarrow> ToStatus e)))"

subsection \<open>Calls on the descriptor, and fixtures of the handle\<close>

text \<open>
  The calls that go to the backing descriptor.  In \<open>closedFd\<close> the descriptor is
  closed: the operating system answers every call on it with \<open>EBADF\<close>, and the
  lookup of \<open>/proc/self/fd/N\<close> in \<open>Utimens\<close> with \<open>ENOENT\<close>.
\<close>

fun fdCall :: "call \<Rightarrow> bool" where
  "fdCall (CReadAt n off) = True"
| "fdCall (CWriteAt d off) = True"
| "fdCall (CPrealloc off n) = True"
| "fdCall CStat = True"
| "fdCall CFstat = True"
| "fdCall (CFtruncate n) = True"
| "fdCall CDup = True"
| "fdCall CFsync = True"
| "fdCall (CChmod m) = True"
| "fdCall (CChown u g) = True"
| "fdCall c = False"

definition closedFd :: "env \<Rightarrow> bool" where
  "closedFd E = (\<forall>tr c. (fdCall c \<longrightarrow> r_err (answer E tr c) = Some (Errno EBADF))
                     \<and> r_err (answer E tr CUtimesNano) = Some (Errno ENOENT))"

text \<open>
  Concrete handles and environments for the closed instances: a 4096-byte block size with
  16-byte nonces, an 18-byte header, a fresh handle, one with a cached header and a
  released one; an environment in which the backing file is empty (reads hit the end
  of the file) and every other call succeeds, one in which preallocation succeeds only
  for the first block, one in which the file is empty and no space can be preallocated,
  and one in which the descriptor is closed.
\<close>

definition idFix :: "byte list" where
  "idFix = [1, 2, 3, 4, 5, 6, 7, 8, 9, 10, 11, 12, 13, 14, 15, 16]"

definition ceFix :: ContentEnc where
  "ceFix = contentenc_New
     \<lparr>BlockCipher = KeyBytes [], Gcm = GoGCM (KeyBytes []) 16, GcmIVGen = 16, IVLen = 16\<rparr> 4096"

definition hFresh :: fileHandle where
  "hFresh = \<lparr>released = False, writeOnly = False, contentEnc = ceFix, ino = 7, header = None\<rparr>"

definition hOpen :: fileHandle where
  "hOpen = hFresh\<lparr>header := Some \<lparr>Id = idFix\<rparr>\<rparr>"

definition hReleased :: fileHandle where
  "hReleased = hOpen\<lparr>released := True\<rparr>"

definition okReply :: reply where
  "okReply = \<lparr>r_err = None, r_bytes = [], r_num = 0\<rparr>"

definition envEmpty :: env where
  "envEmpty = \<lparr>answer = (\<lambda>tr c. case c of
        CRandomHeader \<Rightarrow> okReply\<lparr>r_bytes := idFix\<rparr>
      | CPack i \<Rightarrow> okReply\<lparr>r_bytes := [0, 2] @ i\<rparr>
      | CReadAt n off \<Rightarrow> okReply\<lparr>r_err := Some EOF\<rparr>
      | CMergeBlocks a b s \<Rightarrow> okReply\<lparr>r_bytes := replicate s 0 @ b\<rparr>
      | CEncryptBlock p n i \<Rightarrow> okReply\<lparr>r_bytes := replicate 16 0 @ p @ replicate 16 0\<rparr>
      | _ \<Rightarrow> okReply), HEADER_LEN = 18\<rparr>"



definition envClosed :: env where
  "envClosed = \<lparr>answer = (\<lambda>tr c. if fdCall c then okReply\<lparr>r_err := Some (Errno EBADF)\<rparr>
        else if c = CUtimesNano then okReply\<lparr>r_err := Some (Errno ENOENT)\<rparr> else okReply),
      HEADER_LEN = 18\<rparr>"

text \<open>
  Fixtures for the parameters of \<open>Write\<close>: a handle whose \<open>createsHole\<close> never
  reports a hole and whose \<open>zeroPad\<close> does nothing.
\<close>

definition noHole :: "fileHandle \<Rightarrow> nat \<Rightarrow> nat \<Rightarrow> bool" where
  "noHole f plainSize off = False"

definition noPad :: "env \<Rightarrow> state \<Rightarrow> nat \<Rightarrow> (state \<times> status) outcome" where
  "noPad E \<sigma> plainSize = Returns (\<sigma>, OK)"

subsection \<open>Shapes of traces\<close>




section \<open>The config file: lemmas and theorems\<close>

lemma tmp_neq: "fn @ ''.tmp'' \<noteq> fn"
proof
  assume "fn @ ''.tmp'' = fn"
  then have "length (fn @ ''.tmp'') = length fn" by simp
  then show False by simp
qed


lemma WriteFile_success:
  "WriteFile cf s = (None, s') \<Longrightarrow>
     files s' (filename cf) = Some \<lparr>perm = mode0400, content = Marshal cf\<rparr>
   \<and> files s' (filename cf @ ''.tmp'') = None
   \<and> files s (filename cf @ ''.tmp'') = None"
  using tmp_neq [of "filename cf"]
  by (auto simp: WriteFile_def Let_def split: option.splits if_splits)



lemma WriteFile_changed:
  "files (snd (WriteFile cf s)) p = Some n \<Longrightarrow> files (snd (WriteFile cf s)) p \<noteq> files s p \<Longrightarrow>
     perm n = mode0400 \<and> (content n = Opaque [] \<or> content n = Marshal cf)"
  by (auto simp: WriteFile_def Let_def split: option.splits if_splits)

lemma WriteFile_no_fault:
  "files s (filename cf @ ''.tmp'') = None \<Longrightarrow> fault s StepOpen = None \<Longrightarrow> fault s StepMarshal = None
   \<Longrightarrow> fault s StepWrite = None \<Longrightarrow> fault s StepSync = None \<Longrightarrow> fault s StepClose = None
   \<Longrightarrow> fault s StepRename = None \<Longrightarrow> fst (WriteFile cf s) = None"
  by (simp add: WriteFile_def Let_def)

lemma WriteFile_world:
  "fault (snd (WriteFile cf s)) = fault s" "ctors (snd (WriteFile cf s)) = ctors s"
  "printed (snd (WriteFile cf s)) = printed s"
  by (auto simp: WriteFile_def Let_def split: option.splits if_splits)


lemma RandBytes_length: "length (fst (RandBytes s n)) = n"
  by (simp add: RandBytes_def)

lemma hmacKey_zero: "length pw < 64 \<Longrightarrow> hmacKey (pw @ [CHR 0x00]) = hmacKey pw"
proof -
  assume a: "length pw < 64"
  then have "64 - length pw = Suc (63 - length pw)" by arith
  then show ?thesis using a by (simp add: hmacKey_def replicate_append_same)
qed

lemma keyWrap_built:
  "keylen h = KeyLen \<Longrightarrow> New h False False = Returns (cryptoCore (keyWrapContentEnc h))"
  "contentenc_New (cryptoCore (keyWrapContentEnc h)) 4096 = keyWrapContentEnc h"
  by (simp_all add: New_def keyWrapContentEnc_def contentenc_New_def AuthTagLen_def)

lemma EncryptKey_Returns:
  "\<exists>so nonce s'. EncryptKey rp cf s key pw logN =
        Returns (cf\<lparr>ScryptObject := so, EncryptedKey := Sealed (DeriveKey so pw) nonce 0 [] key\<rparr>, s')
     \<and> length nonce = 12 \<and> kdf_KeyLen so = 32
     \<and> files s' = files s \<and> fault s' = fault s \<and> printed s' = printed s
     \<and> ctors s' = ctors s @ [CallNew (DeriveKey so pw) False False,
                               CallContentEncNew (cryptoCore (keyWrapContentEnc (DeriveKey so pw))) 4096]"
  apply (rule exI [of _ "fst (NewScryptKdf rp s logN)"])
  apply (rule exI [of _ "map (rand s) [rpos s + 32 ..< rpos s + 44]"])
  apply (simp add: EncryptKey_def NewScryptKdf_def Let_def split_beta DeriveKey_def New_in_def New_def KeyLen_def
      contentenc_New_in_def contentenc_New_def EncryptBlock_def RandBytes_def keyWrapContentEnc_def add.commute)
  done

lemma LoadConfFile_parsed:
  assumes "fault s StepRead = None" "files s fn = Some n" "content n = Json c k so v ffs"
  shows "LoadConfFile rN rP s fn pw =
    (let cf = \<lparr>Creator = c, EncryptedKey = k, ScryptObject = so, Version = v, FeatureFlags = ffs, filename = fn\<rparr> in
     if v \<noteq> 2 then Returns (Inl (UnsupportedFormat v), s)
     else case find (\<lambda>f. \<not> isFeatureFlagKnown f) ffs of
       Some f \<Rightarrow> Returns (Inl (UnsupportedFlag f), s)
     | None \<Rightarrow>
        if kdf_KeyLen so \<noteq> 32 then Panics
        else
          let missing = filter (\<lambda>i. knownFlags i \<notin> set ffs) (if ''PlaintextNames'' \<in> set ffs then rP else rN);
              s1 = s\<lparr>printed := printed s @ map (\<lambda>i. DeprecatedFlag (knownFlags i)) missing
                        @ (if missing \<noteq> [] then [DeprecatedBanner] else []),
                     ctors := ctors s @ [CallNew (DeriveKey so pw) False False,
                        CallContentEncNew (cryptoCore (keyWrapContentEnc (DeriveKey so pw))) 4096]\<rparr>
          in case DecryptBlock (keyWrapContentEnc (DeriveKey so pw)) k 0 [] of
               Inl err \<Rightarrow> Returns (Inl PasswordIncorrect, s1\<lparr>printed := printed s1 @ [WarnUnlock]\<rparr>)
             | Inr key \<Rightarrow> Returns (Inr (key, cf), s1))"
  using assms
  apply (simp add: LoadConfFile_def ReadFile_def zeroConfFile_def CurrentVersion_def Let_def
      IsFeatureFlagSet_def split: option.splits)
  apply (simp add: New_in_def New_def KeyLen_def contentenc_New_in_def contentenc_New_def keyWrapContentEnc_def
      AuthTagLen_def Let_def DeriveKey_def split: sum.splits)
  done


lemma CreateConfFile_eq:
  "\<exists>cf s2 nonce. CreateConfFile rp s fn pw ptn logN creator = Returns (WriteFile cf s2)
     \<and> filename cf = fn \<and> Creator cf = creator \<and> Version cf = 2
     \<and> FeatureFlags cf = (if ptn then [''GCMIV128'', ''PlaintextNames'']
                           else [''GCMIV128'', ''DirIV'', ''EMENames'', ''LongNames''])
     \<and> EncryptedKey cf = Sealed (DeriveKey (ScryptObject cf) pw) nonce 0 [] (fst (RandBytes s KeyLen))
     \<and> length nonce = 12 \<and> kdf_KeyLen (ScryptObject cf) = 32
     \<and> fault s2 = fault s \<and> files s2 = files s"
proof -
  let ?cf = "zeroConfFile\<lparr>filename := fn, Creator := creator, Version := CurrentVersion\<rparr>"
  obtain so nonce s' where e: "EncryptKey rp ?cf (snd (RandBytes s KeyLen)) (fst (RandBytes s KeyLen)) pw logN =
        Returns (?cf\<lparr>ScryptObject := so,
           EncryptedKey := Sealed (DeriveKey so pw) nonce 0 [] (fst (RandBytes s KeyLen))\<rparr>, s')"
    and l: "length nonce = 12" "kdf_KeyLen so = 32"
    and w: "files s' = files (snd (RandBytes s KeyLen))" "fault s' = fault (snd (RandBytes s KeyLen))"
    using EncryptKey_Returns [of rp ?cf "snd (RandBytes s KeyLen)" "fst (RandBytes s KeyLen)" pw logN]
    by (elim exE conjE) (rule that)
  have w': "files s' = files s" "fault s' = fault s" using w by (simp_all add: RandBytes_def)
  show ?thesis
  proof (cases ptn)
    case True
    show ?thesis
      apply (rule exI [of _ "?cf\<lparr>ScryptObject := so,
           EncryptedKey := Sealed (DeriveKey so pw) nonce 0 [] (fst (RandBytes s KeyLen)),
           FeatureFlags := [''GCMIV128'', ''PlaintextNames'']\<rparr>"])
      apply (rule exI [of _ s'], rule exI [of _ nonce])
      using True e l w'
      apply (simp add: CreateConfFile_def split_beta Let_def zeroConfFile_def CurrentVersion_def)
      done
  next
    case False
    show ?thesis
      apply (rule exI [of _ "?cf\<lparr>ScryptObject := so,
           EncryptedKey := Sealed (DeriveKey so pw) nonce 0 [] (fst (RandBytes s KeyLen)),
           FeatureFlags := [''GCMIV128'', ''DirIV'', ''EMENames'', ''LongNames'']\<rparr>"])
      apply (rule exI [of _ s'], rule exI [of _ nonce])
      using False e l w'
      apply (simp add: CreateConfFile_def split_beta Let_def zeroConfFile_def CurrentVersion_def)
      done
  qed
qed

lemma known_created:
  "find (\<lambda>f. \<not> isFeatureFlagKnown f) [''GCMIV128'', ''PlaintextNames''] = None"
  "find (\<lambda>f. \<not> isFeatureFlagKnown f) [''GCMIV128'', ''DirIV'', ''EMENames'', ''LongNames''] = None"
  by (simp_all add: isFeatureFlagKnown_def allFlags_def)

lemma unwrap_same_key:
  "length nonce = 12 \<Longrightarrow> hmacKey pw' = hmacKey pw \<Longrightarrow>
     DecryptBlock (keyWrapContentEnc (DeriveKey so pw')) (Sealed (DeriveKey so pw) nonce 0 [] key) 0 [] = Inr key"
  by (simp add: keyWrapContentEnc_def DeriveKey_def)

lemma unwrap_other_key:
  "hmacKey pw' \<noteq> hmacKey pw \<Longrightarrow>
     DecryptBlock (keyWrapContentEnc (DeriveKey so pw')) (Sealed (DeriveKey so pw) nonce 0 [] key) 0 [] = Inl AuthError"
  by (simp add: keyWrapContentEnc_def DeriveKey_def)

lemma create_then_load:
  assumes cr: "CreateConfFile rp s fn pw ptn logN creator = Returns (None, s1)"
    and rd: "fault s StepRead = None"
  shows "hmacKey pw' = hmacKey pw \<Longrightarrow>
           \<exists>cf t. LoadConfFile rN rP s1 fn pw' = Returns (Inr (fst (RandBytes s KeyLen), cf), t)"
    and "hmacKey pw' \<noteq> hmacKey pw \<Longrightarrow> \<exists>t. LoadConfFile rN rP s1 fn pw' = Returns (Inl PasswordIncorrect, t)"
proof -
  obtain cf s2 nonce where w: "CreateConfFile rp s fn pw ptn logN creator = Returns (WriteFile cf s2)"
    and f: "filename cf = fn" "Creator cf = creator" "Version cf = 2"
      "FeatureFlags cf = (if ptn then [''GCMIV128'', ''PlaintextNames'']
                           else [''GCMIV128'', ''DirIV'', ''EMENames'', ''LongNames''])"
      "EncryptedKey cf = Sealed (DeriveKey (ScryptObject cf) pw) nonce 0 [] (fst (RandBytes s KeyLen))"
      "length nonce = 12" "kdf_KeyLen (ScryptObject cf) = 32" "fault s2 = fault s"
    using CreateConfFile_eq [of rp s fn pw ptn logN creator] by (elim exE conjE) (rule that)
  from w cr have wf: "WriteFile cf s2 = (None, s1)" by simp
  then have onDisk: "files s1 fn = Some \<lparr>perm = mode0400, content = Marshal cf\<rparr>"
    using WriteFile_success [of cf s2 s1] f by simp
  have flt: "fault s1 StepRead = None"
    using WriteFile_world(1) [of cf s2] wf f rd by simp
  have m: "content \<lparr>perm = mode0400, content = Marshal cf\<rparr> =
      Json creator (EncryptedKey cf) (ScryptObject cf) 2 (FeatureFlags cf)"
    using f by (simp add: Marshal_def)
  have kn: "find (\<lambda>f. \<not> isFeatureFlagKnown f) (FeatureFlags cf) = None"
    using f known_created by (cases ptn) simp_all
  show "\<exists>cf t. LoadConfFile rN rP s1 fn pw' = Returns (Inr (fst (RandBytes s KeyLen), cf), t)"
    if "hmacKey pw' = hmacKey pw"
    using LoadConfFile_parsed [OF flt onDisk m, of rN rP pw'] kn f(5,6,7)
      unwrap_same_key [OF f(6) that, of "ScryptObject cf" "fst (RandBytes s KeyLen)"]
    by (simp add: Let_def)
  show "\<exists>t. LoadConfFile rN rP s1 fn pw' = Returns (Inl PasswordIncorrect, t)"
    if "hmacKey pw' \<noteq> hmacKey pw"
    using LoadConfFile_parsed [OF flt onDisk m, of rN rP pw'] kn f(5,6,7)
      unwrap_other_key [OF that, of "ScryptObject cf" nonce "fst (RandBytes s KeyLen)"]
    by (simp add: Let_def)
qed

lemma CreateConfFile_succeeds:
  assumes "files s (fn @ ''.tmp'') = None" "fault s StepOpen = None" "fault s StepMarshal = None"
    "fault s StepWrite = None" "fault s StepSync = None" "fault s StepClose = None" "fault s StepRename = None"
  shows "\<exists>s1. CreateConfFile rp s fn pw ptn logN creator = Returns (None, s1)"
proof -
  obtain cf s2 where w: "CreateConfFile rp s fn pw ptn logN creator = Returns (WriteFile cf s2)"
    and f: "filename cf = fn" "fault s2 = fault s" "files s2 = files s"
    using CreateConfFile_eq [of rp s fn pw ptn logN creator] by (elim exE conjE) (rule that)
  have "fst (WriteFile cf s2) = None"
    using WriteFile_no_fault [of s2 cf] assms f by simp
  then have "WriteFile cf s2 = (None, snd (WriteFile cf s2))"
    by (metis prod.collapse)
  with w show ?thesis by auto
qed

lemma sys0_clean:
  "files sys0 p = None" "fault sys0 st = None"
  by (simp_all add: sys0_def)

lemma created_run:
  "CreateConfFile (8, 1) sys0 ''t.conf'' ''foo'' False 10 ''v1.0'' = Returns (None, sysCreated)"
  unfolding CreateConfFile_def EncryptKey_def NewScryptKdf_def RandBytes_def New_in_def New_def
      contentenc_New_in_def contentenc_New_def EncryptBlock_def WriteFile_def Marshal_def
      zeroConfFile_def CurrentVersion_def KeyLen_def sysCreated_def keyCreated_def kdfCreated_def
      DeriveKey_def Let_def split_beta sys0_def
  by (simp add: fun_upd_twist [of "''t.conf''" "''t.conf.tmp''"])

text \<open>
  Claim C4 as stated fails for its second half: a password different from the one of
  creation can unlock the config.  The config created with the password \<open>foo\<close> is
  loaded with \<open>foo\<close> followed by one zero byte, and \<open>LoadConfFile\<close> returns the
  master key, since both passwords give the same HMAC key.
\<close>

theorem C4_counterexample:
  "''foo'' @ [CHR 0x00] \<noteq> ''foo''
   \<and> CreateConfFile (8, 1) sys0 ''t.conf'' ''foo'' False 10 ''v1.0'' = Returns (None, sysCreated)
   \<and> keyOrError (LoadConfFile [FlagDirIV, FlagEMENames, FlagGCMIV128] [FlagGCMIV128] sysCreated ''t.conf''
         (''foo'' @ [CHR 0x00])) = Returns (Inr keyCreated)
   \<and> keyCreated = fst (RandBytes sys0 KeyLen)"
proof (intro conjI)
  show "''foo'' @ [CHR 0x00] \<noteq> ''foo''" by simp
  show "CreateConfFile (8, 1) sys0 ''t.conf'' ''foo'' False 10 ''v1.0'' = Returns (None, sysCreated)"
    by (rule created_run)
  show k: "keyCreated = fst (RandBytes sys0 KeyLen)"
    by (simp add: keyCreated_def RandBytes_def sys0_def KeyLen_def)
  have h: "hmacKey (''foo'' @ [CHR 0x00]) = hmacKey ''foo''"
    by (rule hmacKey_zero) simp
  have r: "fault sys0 StepRead = None" by (simp add: sys0_def)
  from create_then_load(1) [OF created_run r h, of "[FlagDirIV, FlagEMENames, FlagGCMIV128]" "[FlagGCMIV128]"]
  show "keyOrError (LoadConfFile [FlagDirIV, FlagEMENames, FlagGCMIV128] [FlagGCMIV128] sysCreated ''t.conf''
         (''foo'' @ [CHR 0x00])) = Returns (Inr keyCreated)"
    using k by (auto simp: keyOrError_def)
qed

text \<open>
  Claim C4, amended.  For every password and all creation parameters: when
  \<open>CreateConfFile\<close> has written the config file, \<open>LoadConfFile\<close> with the same
  password returns the 32-byte master key that creation drew from the random source, and
  so does every password with the same HMAC key (the same password up to trailing zero
  bytes).  With a password of at most 64 bytes whose HMAC key differs from that of the
  creation password (itself of at most 64 bytes) it returns the ``Password incorrect''
  error.  (scrypt beyond its HMAC key and the AEAD are the ideal ones of the definitions
  marked as modelled from the spec.)
\<close>

theorem C4_create_load_roundtrip:
  assumes "CreateConfFile rp s fn pw ptn logN creator = Returns (None, s1)"
    and "fault s StepRead = None"
  shows "length (fst (RandBytes s KeyLen)) = 32
     \<and> (\<exists>cf t. LoadConfFile rN rP s1 fn pw = Returns (Inr (fst (RandBytes s KeyLen), cf), t))
     \<and> (hmacKey pw' = hmacKey pw \<longrightarrow>
          (\<exists>cf t. LoadConfFile rN rP s1 fn pw' = Returns (Inr (fst (RandBytes s KeyLen), cf), t)))
     \<and> (length pw \<le> 64 \<and> length pw' \<le> 64 \<and> hmacKey pw' \<noteq> hmacKey pw \<longrightarrow>
          (\<exists>t. LoadConfFile rN rP s1 fn pw' = Returns (Inl PasswordIncorrect, t)))"
  using create_then_load(1) [OF assms refl, of rN rP] create_then_load(1) [OF assms, of pw' rN rP]
    create_then_load(2) [OF assms, of pw' rN rP] RandBytes_length [of s KeyLen]
  by (simp add: KeyLen_def)

theorem C4_create_load_roundtrip_witness:
  "CreateConfFile (8, 1) sys0 ''t.conf'' ''foo'' False 10 ''v1.0'' = Returns (None, sysCreated)
     \<and> length (fst (RandBytes sys0 KeyLen)) = 32
     \<and> (\<exists>cf t. LoadConfFile [FlagDirIV, FlagEMENames, FlagGCMIV128] [FlagGCMIV128] sysCreated ''t.conf'' ''foo''
            = Returns (Inr (fst (RandBytes sys0 KeyLen), cf), t))
     \<and> (\<exists>cf t. LoadConfFile [FlagDirIV, FlagEMENames, FlagGCMIV128] [FlagGCMIV128] sysCreated ''t.conf''
              (''foo'' @ [CHR 0x00])
            = Returns (Inr (fst (RandBytes sys0 KeyLen), cf), t))
     \<and> (\<exists>t. LoadConfFile [FlagDirIV, FlagEMENames, FlagGCMIV128] [FlagGCMIV128] sysCreated ''t.conf'' ''bar''
            = Returns (Inl PasswordIncorrect, t))"
proof -
  have r: "fault sys0 StepRead = None" by (simp add: sys0_def)
  have d: "length ''foo'' \<le> 64 \<and> length ''bar'' \<le> 64 \<and> hmacKey ''bar'' \<noteq> hmacKey ''foo''"
    by (simp add: hmacKey_def)
  have h: "hmacKey (''foo'' @ [CHR 0x00]) = hmacKey ''foo''"
    by (rule hmacKey_zero) simp
  show ?thesis
    using created_run
      C4_create_load_roundtrip [OF created_run r, of "[FlagDirIV, FlagEMENames, FlagGCMIV128]" "[FlagGCMIV128]" "''bar''"] d
      C4_create_load_roundtrip [OF created_run r, of "[FlagDirIV, FlagEMENames, FlagGCMIV128]" "[FlagGCMIV128]"
        "''foo'' @ [CHR 0x00]"] h
    by blast
qed

lemma find_unknown:
  "\<not> list_all isFeatureFlagKnown ffs \<Longrightarrow>
     \<exists>f. find (\<lambda>f. \<not> isFeatureFlagKnown f) ffs = Some f \<and> f \<in> set ffs \<and> \<not> isFeatureFlagKnown f"
  by (induction ffs) auto

lemma find_all_known:
  "list_all isFeatureFlagKnown ffs \<Longrightarrow> find (\<lambda>f. \<not> isFeatureFlagKnown f) ffs = None"
  by (induction ffs) auto

text \<open>
  Claim C5.  For every config file that \<open>LoadConfFile\<close> reads and parses: a version
  other than 2 is rejected with an error; with version 2, a flag outside the known
  vocabulary is rejected with an error naming such a flag; with version 2 and known
  flags only, loading goes on to unwrap the key, so a required flag that is missing
  only prints the deprecation line for that flag and the result is the one of the
  unwrapping.
\<close>

theorem C5_load_version_and_flags:
  assumes "fault s StepRead = None" and "files s fn = Some n" and "content n = Json c k so v ffs"
  shows "(v \<noteq> 2 \<longrightarrow> LoadConfFile rN rP s fn pw = Returns (Inl (UnsupportedFormat v), s))
    \<and> (v = 2 \<and> \<not> list_all isFeatureFlagKnown ffs \<longrightarrow>
         (\<exists>f. f \<in> set ffs \<and> \<not> isFeatureFlagKnown f
             \<and> LoadConfFile rN rP s fn pw = Returns (Inl (UnsupportedFlag f), s)))
    \<and> (v = 2 \<and> list_all isFeatureFlagKnown ffs \<and> kdf_KeyLen so = 32 \<longrightarrow>
         (\<exists>t. LoadConfFile rN rP s fn pw =
                 Returns (case DecryptBlock (keyWrapContentEnc (DeriveKey so pw)) k 0 [] of
                            Inl e \<Rightarrow> Inl PasswordIncorrect
                          | Inr key \<Rightarrow> Inr (key, \<lparr>Creator = c, EncryptedKey = k, ScryptObject = so,
                                                Version = v, FeatureFlags = ffs, filename = fn\<rparr>), t)
            \<and> (\<forall>i. i \<in> set (if IsFeatureFlagSet \<lparr>Creator = c, EncryptedKey = k, ScryptObject = so,
                                                Version = v, FeatureFlags = ffs, filename = fn\<rparr> FlagPlaintextNames
                                then rP else rN)
                      \<and> knownFlags i \<notin> set ffs
                   \<longrightarrow> DeprecatedFlag (knownFlags i) \<in> set (printed t))))"
proof (intro conjI impI)
  assume "v \<noteq> 2"
  then show "LoadConfFile rN rP s fn pw = Returns (Inl (UnsupportedFormat v), s)"
    using LoadConfFile_parsed [OF assms, of rN rP pw] by (simp add: Let_def)
next
  assume a: "v = 2 \<and> \<not> list_all isFeatureFlagKnown ffs"
  then obtain f where f: "find (\<lambda>f. \<not> isFeatureFlagKnown f) ffs = Some f" "f \<in> set ffs" "\<not> isFeatureFlagKnown f"
    using find_unknown by blast
  then have "LoadConfFile rN rP s fn pw = Returns (Inl (UnsupportedFlag f), s)"
    using LoadConfFile_parsed [OF assms, of rN rP pw] a by (simp add: Let_def)
  with f show "\<exists>f. f \<in> set ffs \<and> \<not> isFeatureFlagKnown f
             \<and> LoadConfFile rN rP s fn pw = Returns (Inl (UnsupportedFlag f), s)"
    by blast
next
  assume a: "v = 2 \<and> list_all isFeatureFlagKnown ffs \<and> kdf_KeyLen so = 32"
  then have n: "find (\<lambda>f. \<not> isFeatureFlagKnown f) ffs = None"
    using find_all_known by blast
  show "\<exists>t. LoadConfFile rN rP s fn pw =
                 Returns (case DecryptBlock (keyWrapContentEnc (DeriveKey so pw)) k 0 [] of
                            Inl e \<Rightarrow> Inl PasswordIncorrect
                          | Inr key \<Rightarrow> Inr (key, \<lparr>Creator = c, EncryptedKey = k, ScryptObject = so,
                                                Version = v, FeatureFlags = ffs, filename = fn\<rparr>), t)
            \<and> (\<forall>i. i \<in> set (if IsFeatureFlagSet \<lparr>Creator = c, EncryptedKey = k, ScryptObject = so,
                                                Version = v, FeatureFlags = ffs, filename = fn\<rparr> FlagPlaintextNames
                                then rP else rN)
                      \<and> knownFlags i \<notin> set ffs
                   \<longrightarrow> DeprecatedFlag (knownFlags i) \<in> set (printed t))"
    using LoadConfFile_parsed [OF assms, of rN rP pw] a n
    by (cases "DecryptBlock (keyWrapContentEnc (DeriveKey so pw)) k 0 []")
       (auto simp: Let_def IsFeatureFlagSet_def)
qed

lemma fix_files:
  "fault sysFix StepRead = None"
  "files sysFix ''v1.conf'' = Some \<lparr>perm = mode0400, content = Json ''old'' blobFix kdfFix 1 []\<rparr>"
  "files sysFix ''StrangeFeature.conf'' = Some \<lparr>perm = mode0400,
          content = Json ''x'' blobFix kdfFix 2 [''GCMIV128'', ''StrangeFeature'']\<rparr>"
  "files sysFix ''legacy.conf'' = Some \<lparr>perm = mode0400, content = Json ''v0.6'' blobFix kdfFix 2 [''DirIV'']\<rparr>"
  "files sysFix ''PlaintextNames.conf'' = Some \<lparr>perm = mode0400,
          content = Json ''v1.0'' blobFix kdfFix 2 [''GCMIV128'', ''PlaintextNames'']\<rparr>"
  by (simp_all add: sysFix_def sys0_def)

lemma fix_unwrap: "DecryptBlock (keyWrapContentEnc (DeriveKey kdfFix ''test'')) blobFix 0 [] = Inr keyFix"
  by (simp add: keyWrapContentEnc_def blobFix_def)

theorem C5_load_version_and_flags_witness:
  "LoadConfFile [FlagDirIV, FlagEMENames, FlagGCMIV128] [FlagGCMIV128] sysFix ''v1.conf'' ''test''
      = Returns (Inl (UnsupportedFormat 1), sysFix)
   \<and> LoadConfFile [FlagDirIV, FlagEMENames, FlagGCMIV128] [FlagGCMIV128] sysFix ''StrangeFeature.conf'' ''test''
      = Returns (Inl (UnsupportedFlag ''StrangeFeature''), sysFix)
   \<and> (\<exists>t. LoadConfFile [FlagDirIV, FlagEMENames, FlagGCMIV128] [FlagGCMIV128] sysFix ''legacy.conf'' ''test''
          = Returns (Inr (keyFix, \<lparr>Creator = ''v0.6'', EncryptedKey = blobFix, ScryptObject = kdfFix,
                 Version = 2, FeatureFlags = [''DirIV''], filename = ''legacy.conf''\<rparr>), t)
        \<and> DeprecatedFlag ''EMENames'' \<in> set (printed t)
        \<and> DeprecatedFlag ''GCMIV128'' \<in> set (printed t))"
proof -
  have c: "content \<lparr>perm = mode0400, content = d\<rparr> = d" for d by simp
  have k: "isFeatureFlagKnown ''GCMIV128''" "\<not> isFeatureFlagKnown ''StrangeFeature''" "isFeatureFlagKnown ''DirIV''"
    by (simp_all add: isFeatureFlagKnown_def allFlags_def)
  have v1: "LoadConfFile [FlagDirIV, FlagEMENames, FlagGCMIV128] [FlagGCMIV128] sysFix ''v1.conf'' ''test''
      = Returns (Inl (UnsupportedFormat 1), sysFix)"
    using C5_load_version_and_flags [OF fix_files(1) fix_files(2) c,
        of "[FlagDirIV, FlagEMENames, FlagGCMIV128]" "[FlagGCMIV128]" "''test''"]
    by simp
  have v2: "LoadConfFile [FlagDirIV, FlagEMENames, FlagGCMIV128] [FlagGCMIV128] sysFix ''StrangeFeature.conf'' ''test''
      = Returns (Inl (UnsupportedFlag ''StrangeFeature''), sysFix)"
    using C5_load_version_and_flags [OF fix_files(1) fix_files(3) c,
        of "[FlagDirIV, FlagEMENames, FlagGCMIV128]" "[FlagGCMIV128]" "''test''"] k
    by auto
  obtain t where t: "LoadConfFile [FlagDirIV, FlagEMENames, FlagGCMIV128] [FlagGCMIV128] sysFix ''legacy.conf'' ''test''
          = Returns (Inr (keyFix, \<lparr>Creator = ''v0.6'', EncryptedKey = blobFix, ScryptObject = kdfFix,
                 Version = 2, FeatureFlags = [''DirIV''], filename = ''legacy.conf''\<rparr>), t)"
    and m: "\<forall>i. i \<in> set [FlagDirIV, FlagEMENames, FlagGCMIV128] \<and> knownFlags i \<notin> set [''DirIV'']
              \<longrightarrow> DeprecatedFlag (knownFlags i) \<in> set (printed t)"
    using C5_load_version_and_flags [OF fix_files(1) fix_files(4) c,
        of "[FlagDirIV, FlagEMENames, FlagGCMIV128]" "[FlagGCMIV128]" "''test''"] k fix_unwrap
    by (auto simp: IsFeatureFlagSet_def kdfFix_def)
  have "DeprecatedFlag ''EMENames'' \<in> set (printed t)"
    using m [rule_format, of FlagEMENames] by simp
  moreover have "DeprecatedFlag ''GCMIV128'' \<in> set (printed t)"
    using m [rule_format, of FlagGCMIV128] by simp
  ultimately have v3: "\<exists>t. LoadConfFile [FlagDirIV, FlagEMENames, FlagGCMIV128] [FlagGCMIV128] sysFix ''legacy.conf'' ''test''
          = Returns (Inr (keyFix, \<lparr>Creator = ''v0.6'', EncryptedKey = blobFix, ScryptObject = kdfFix,
                 Version = 2, FeatureFlags = [''DirIV''], filename = ''legacy.conf''\<rparr>), t)
        \<and> DeprecatedFlag ''EMENames'' \<in> set (printed t)
        \<and> DeprecatedFlag ''GCMIV128'' \<in> set (printed t)"
    using t by blast
  from v1 v2 v3 show ?thesis by blast
qed

text \<open>
  Claim C6.  Every invocation of \<open>CreateConfFile\<close> returns, and whatever it has put
  on disk carries exactly the flags GCMIV128 and PlaintextNames when \<open>plaintextNames\<close>
  is true, and exactly GCMIV128, DirIV, EMENames and LongNames when it is false: each
  path whose content it changed holds either the still empty temporary file or a
  document with these flags.  When the temporary path is free and the operating system
  injects no fault into the write, creation succeeds and the document with these flags
  is at the config path.
\<close>

theorem C6_create_flag_set:
  "\<exists>r s1. CreateConfFile rp s fn pw ptn logN creator = Returns (r, s1)
     \<and> (files s (fn @ ''.tmp'') = None \<and> fault s StepOpen = None \<and> fault s StepMarshal = None
          \<and> fault s StepWrite = None \<and> fault s StepSync = None \<and> fault s StepClose = None
          \<and> fault s StepRename = None \<longrightarrow>
        r = None \<and> (\<exists>c k so v. files s1 fn = Some \<lparr>perm = mode0400, content = Json c k so v
            (if ptn then [knownFlags FlagGCMIV128, knownFlags FlagPlaintextNames]
             else [knownFlags FlagGCMIV128, knownFlags FlagDirIV, knownFlags FlagEMENames,
                   knownFlags FlagLongNames])\<rparr>))
     \<and> (\<forall>p n. files s1 p = Some n \<and> files s1 p \<noteq> files s p \<longrightarrow>
          content n = Opaque [] \<or> (\<exists>c k so v. content n = Json c k so v
            (if ptn then [knownFlags FlagGCMIV128, knownFlags FlagPlaintextNames]
             else [knownFlags FlagGCMIV128, knownFlags FlagDirIV, knownFlags FlagEMENames,
                   knownFlags FlagLongNames])))
     \<and> set (if ptn then [knownFlags FlagGCMIV128, knownFlags FlagPlaintextNames]
             else [knownFlags FlagGCMIV128, knownFlags FlagDirIV, knownFlags FlagEMENames,
                   knownFlags FlagLongNames])
        = (if ptn then {''GCMIV128'', ''PlaintextNames''}
           else {''GCMIV128'', ''DirIV'', ''EMENames'', ''LongNames''})"
proof -
  let ?L = "if ptn then [knownFlags FlagGCMIV128, knownFlags FlagPlaintextNames]
             else [knownFlags FlagGCMIV128, knownFlags FlagDirIV, knownFlags FlagEMENames,
                   knownFlags FlagLongNames]"
  obtain cf s2 where w: "CreateConfFile rp s fn pw ptn logN creator = Returns (WriteFile cf s2)"
    and f: "filename cf = fn"
      "FeatureFlags cf = (if ptn then [''GCMIV128'', ''PlaintextNames'']
                           else [''GCMIV128'', ''DirIV'', ''EMENames'', ''LongNames''])"
      "fault s2 = fault s" "files s2 = files s"
    using CreateConfFile_eq [of rp s fn pw ptn logN creator] by (elim exE conjE) (rule that)
  have fl: "FeatureFlags cf = ?L" using f(2) by simp
  obtain r s1 where rs: "WriteFile cf s2 = (r, s1)" by (cases "WriteFile cf s2")
  have a: "r = None \<and> (\<exists>c k so v. files s1 fn = Some \<lparr>perm = mode0400, content = Json c k so v ?L\<rparr>)"
    if h: "files s (fn @ ''.tmp'') = None \<and> fault s StepOpen = None \<and> fault s StepMarshal = None
          \<and> fault s StepWrite = None \<and> fault s StepSync = None \<and> fault s StepClose = None
          \<and> fault s StepRename = None"
  proof -
    have "fst (WriteFile cf s2) = None"
      using WriteFile_no_fault [of s2 cf] h f by simp
    then have r: "r = None" using rs by simp
    then have "files s1 fn = Some \<lparr>perm = mode0400, content = Marshal cf\<rparr>"
      using WriteFile_success [of cf s2 s1] rs f(1) by simp
    then have "\<exists>c k so v. files s1 fn = Some \<lparr>perm = mode0400, content = Json c k so v ?L\<rparr>"
      unfolding Marshal_def fl by blast
    with r show ?thesis by simp
  qed
  have b: "content n = Opaque [] \<or> (\<exists>c k so v. content n = Json c k so v ?L)"
    if h: "files s1 p = Some n \<and> files s1 p \<noteq> files s p" for p n
  proof -
    have "files (snd (WriteFile cf s2)) p = Some n" "files (snd (WriteFile cf s2)) p \<noteq> files s2 p"
      using h rs f(4) by auto
    from WriteFile_changed [OF this]
    have "content n = Opaque [] \<or> content n = Marshal cf" by simp
    then show ?thesis unfolding Marshal_def fl by blast
  qed
  have c: "set ?L = (if ptn then {''GCMIV128'', ''PlaintextNames''}
           else {''GCMIV128'', ''DirIV'', ''EMENames'', ''LongNames''})"
    by simp
  have "CreateConfFile rp s fn pw ptn logN creator = Returns (r, s1)" using w rs by simp
  with a b c show ?thesis by blast
qed

theorem C6_create_flag_set_witness:
  "(\<exists>s1. CreateConfFile (8, 1) sys0 ''t.conf'' ''foo'' True 10 ''v1.0'' = Returns (None, s1)
      \<and> (\<exists>c k so v. files s1 ''t.conf'' = Some \<lparr>perm = mode0400,
             content = Json c k so v [''GCMIV128'', ''PlaintextNames'']\<rparr>))
   \<and> (\<exists>s1. CreateConfFile (8, 1) sys0 ''t.conf'' ''foo'' False 10 ''v1.0'' = Returns (None, s1)
      \<and> (\<exists>c k so v. files s1 ''t.conf'' = Some \<lparr>perm = mode0400,
             content = Json c k so v [''GCMIV128'', ''DirIV'', ''EMENames'', ''LongNames'']\<rparr>))"
proof
  have p: "files sys0 (''t.conf'' @ ''.tmp'') = None \<and> fault sys0 StepOpen = None \<and> fault sys0 StepMarshal = None
          \<and> fault sys0 StepWrite = None \<and> fault sys0 StepSync = None \<and> fault sys0 StepClose = None
          \<and> fault sys0 StepRename = None"
    by (simp add: sys0_clean)
  from C6_create_flag_set [of "(8, 1)" sys0 "''t.conf''" "''foo''" True 10 "''v1.0''"]
  obtain r s1 where c: "CreateConfFile (8, 1) sys0 ''t.conf'' ''foo'' True 10 ''v1.0'' = Returns (r, s1)"
    and a: "files sys0 (''t.conf'' @ ''.tmp'') = None \<and> fault sys0 StepOpen = None \<and> fault sys0 StepMarshal = None
          \<and> fault sys0 StepWrite = None \<and> fault sys0 StepSync = None \<and> fault sys0 StepClose = None
          \<and> fault sys0 StepRename = None \<longrightarrow>
        r = None \<and> (\<exists>c k so v. files s1 ''t.conf'' = Some \<lparr>perm = mode0400, content = Json c k so v
            (if True then [knownFlags FlagGCMIV128, knownFlags FlagPlaintextNames]
             else [knownFlags FlagGCMIV128, knownFlags FlagDirIV, knownFlags FlagEMENames,
                   knownFlags FlagLongNames])\<rparr>)"
    by (elim exE conjE) (rule that)
  from a p have "r = None \<and> (\<exists>c k so v. files s1 ''t.conf'' = Some \<lparr>perm = mode0400,
             content = Json c k so v [''GCMIV128'', ''PlaintextNames'']\<rparr>)"
    by simp
  with c show "\<exists>s1. CreateConfFile (8, 1) sys0 ''t.conf'' ''foo'' True 10 ''v1.0'' = Returns (None, s1)
      \<and> (\<exists>c k so v. files s1 ''t.conf'' = Some \<lparr>perm = mode0400,
             content = Json c k so v [''GCMIV128'', ''PlaintextNames'']\<rparr>)"
    by blast
next
  have p: "files sys0 (''t.conf'' @ ''.tmp'') = None \<and> fault sys0 StepOpen = None \<and> fault sys0 StepMarshal = None
          \<and> fault sys0 StepWrite = None \<and> fault sys0 StepSync = None \<and> fault sys0 StepClose = None
          \<and> fault sys0 StepRename = None"
    by (simp add: sys0_clean)
  from C6_create_flag_set [of "(8, 1)" sys0 "''t.conf''" "''foo''" False 10 "''v1.0''"]
  obtain r s1 where c: "CreateConfFile (8, 1) sys0 ''t.conf'' ''foo'' False 10 ''v1.0'' = Returns (r, s1)"
    and a: "files sys0 (''t.conf'' @ ''.tmp'') = None \<and> fault sys0 StepOpen = None \<and> fault sys0 StepMarshal = None
          \<and> fault sys0 StepWrite = None \<and> fault sys0 StepSync = None \<and> fault sys0 StepClose = None
          \<and> fault sys0 StepRename = None \<longrightarrow>
        r = None \<and> (\<exists>c k so v. files s1 ''t.conf'' = Some \<lparr>perm = mode0400, content = Json c k so v
            (if False then [knownFlags FlagGCMIV128, knownFlags FlagPlaintextNames]
             else [knownFlags FlagGCMIV128, knownFlags FlagDirIV, knownFlags FlagEMENames,
                   knownFlags FlagLongNames])\<rparr>)"
    by (elim exE conjE) (rule that)
  from a p have "r = None \<and> (\<exists>c k so v. files s1 ''t.conf'' = Some \<lparr>perm = mode0400,
             content = Json c k so v [''GCMIV128'', ''DirIV'', ''EMENames'', ''LongNames'']\<rparr>)"
    by simp
  with c show "\<exists>s1. CreateConfFile (8, 1) sys0 ''t.conf'' ''foo'' False 10 ''v1.0'' = Returns (None, s1)
      \<and> (\<exists>c k so v. files s1 ''t.conf'' = Some \<lparr>perm = mode0400,
             content = Json c k so v [''GCMIV128'', ''DirIV'', ''EMENames'', ''LongNames'']\<rparr>)"
    by blast
qed








text \<open>
  Claim C9.  For every password and whatever the feature flags are: \<open>EncryptKey\<close>,
  and \<open>LoadConfFile\<close> once it has accepted version and flags, call
  \<open>cryptocore.New\<close> with the derived key and with \<open>false\<close> for both OpenSSL and
  GCMIV128, and \<open>contentenc.New\<close> with the resulting core and the plaintext block size
  4096; these are the two constructor calls they add to the world.  The core has 96-bit
  nonces and Go's GCM.  With this content encryption \<open>EncryptKey\<close> seals the master
  key, and \<open>LoadConfFile\<close> opens the stored blob, as block 0 with a nil file ID.  The
  nonce has 12 bytes and the blob is 12 + 16 bytes longer than the key.
\<close>

theorem C9_key_wrap_core_fixed:
  "(\<exists>kdf nonce cc s'. EncryptKey rp cf s key pw logN
        = Returns (cf\<lparr>ScryptObject := kdf,
              EncryptedKey := EncryptBlock (contentenc_New cc 4096) nonce key 0 []\<rparr>, s')
      \<and> New (DeriveKey kdf pw) False False = Returns cc
      \<and> ctors s' = ctors s @ [CallNew (DeriveKey kdf pw) False False, CallContentEncNew cc 4096]
      \<and> IVLen cc * 8 = 96 \<and> Gcm cc = GoGCM (DeriveKey kdf pw) (96 div 8)
      \<and> length nonce = 12
      \<and> ciphertext_len (EncryptBlock (contentenc_New cc 4096) nonce key 0 []) = 12 + length key + 16)
   \<and> (fault s StepRead = None \<and> files s fn = Some n \<and> content n = Json c k so 2 ffs
        \<and> list_all isFeatureFlagKnown ffs \<and> kdf_KeyLen so = 32 \<longrightarrow>
       (\<exists>cc t. New (DeriveKey so pw') False False = Returns cc
          \<and> LoadConfFile rN rP s fn pw' =
              Returns (case DecryptBlock (contentenc_New cc 4096) k 0 [] of
                         Inl e \<Rightarrow> Inl PasswordIncorrect
                       | Inr key' \<Rightarrow> Inr (key', \<lparr>Creator = c, EncryptedKey = k, ScryptObject = so,
                                                  Version = 2, FeatureFlags = ffs, filename = fn\<rparr>), t)
          \<and> ctors t = ctors s @ [CallNew (DeriveKey so pw') False False, CallContentEncNew cc 4096]
          \<and> IVLen cc * 8 = 96 \<and> Gcm cc = GoGCM (DeriveKey so pw') (96 div 8)))"
proof (intro conjI impI)
  obtain kdf nonce s' where e: "EncryptKey rp cf s key pw logN =
        Returns (cf\<lparr>ScryptObject := kdf, EncryptedKey := Sealed (DeriveKey kdf pw) nonce 0 [] key\<rparr>, s')"
    and l: "length nonce = 12" "kdf_KeyLen kdf = 32"
    and c: "ctors s' = ctors s @ [CallNew (DeriveKey kdf pw) False False,
                               CallContentEncNew (cryptoCore (keyWrapContentEnc (DeriveKey kdf pw))) 4096]"
    using EncryptKey_Returns [of rp cf s key pw logN] by (elim exE conjE) (rule that)
  let ?cc = "cryptoCore (keyWrapContentEnc (DeriveKey kdf pw))"
  have n: "New (DeriveKey kdf pw) False False = Returns ?cc"
    using l(2) by (intro keyWrap_built(1)) (simp add: DeriveKey_def KeyLen_def)
  have b: "EncryptBlock (contentenc_New ?cc 4096) nonce key 0 [] = Sealed (DeriveKey kdf pw) nonce 0 [] key"
    by (simp add: EncryptBlock_def keyWrapContentEnc_def contentenc_New_def)
  have "EncryptKey rp cf s key pw logN
        = Returns (cf\<lparr>ScryptObject := kdf,
              EncryptedKey := EncryptBlock (contentenc_New ?cc 4096) nonce key 0 []\<rparr>, s')
      \<and> New (DeriveKey kdf pw) False False = Returns ?cc
      \<and> ctors s' = ctors s @ [CallNew (DeriveKey kdf pw) False False, CallContentEncNew ?cc 4096]
      \<and> IVLen ?cc * 8 = 96 \<and> Gcm ?cc = GoGCM (DeriveKey kdf pw) (96 div 8)
      \<and> length nonce = 12
      \<and> ciphertext_len (EncryptBlock (contentenc_New ?cc 4096) nonce key 0 []) = 12 + length key + 16"
    using e n c l(1) unfolding b by (simp add: keyWrapContentEnc_def AuthTagLen_def)
  then show "\<exists>kdf nonce cc s'. EncryptKey rp cf s key pw logN
        = Returns (cf\<lparr>ScryptObject := kdf,
              EncryptedKey := EncryptBlock (contentenc_New cc 4096) nonce key 0 []\<rparr>, s')
      \<and> New (DeriveKey kdf pw) False False = Returns cc
      \<and> ctors s' = ctors s @ [CallNew (DeriveKey kdf pw) False False, CallContentEncNew cc 4096]
      \<and> IVLen cc * 8 = 96 \<and> Gcm cc = GoGCM (DeriveKey kdf pw) (96 div 8)
      \<and> length nonce = 12
      \<and> ciphertext_len (EncryptBlock (contentenc_New cc 4096) nonce key 0 []) = 12 + length key + 16"
    by blast
next
  assume a: "fault s StepRead = None \<and> files s fn = Some n \<and> content n = Json c k so 2 ffs
        \<and> list_all isFeatureFlagKnown ffs \<and> kdf_KeyLen so = 32"
  let ?cc = "cryptoCore (keyWrapContentEnc (DeriveKey so pw'))"
  let ?cf = "\<lparr>Creator = c, EncryptedKey = k, ScryptObject = so, Version = 2, FeatureFlags = ffs, filename = fn\<rparr>"
  have n: "New (DeriveKey so pw') False False = Returns ?cc"
    using a by (intro keyWrap_built(1)) (simp add: DeriveKey_def KeyLen_def)
  have kn: "find (\<lambda>f. \<not> isFeatureFlagKnown f) ffs = None"
    using a find_all_known by blast
  have "\<exists>t. LoadConfFile rN rP s fn pw' =
              Returns (case DecryptBlock (contentenc_New ?cc 4096) k 0 [] of
                         Inl e \<Rightarrow> Inl PasswordIncorrect
                       | Inr key' \<Rightarrow> Inr (key', ?cf), t)
          \<and> ctors t = ctors s @ [CallNew (DeriveKey so pw') False False, CallContentEncNew ?cc 4096]"
    using LoadConfFile_parsed [of s fn n c k so 2 ffs rN rP pw'] a kn
    by (cases "DecryptBlock (keyWrapContentEnc (DeriveKey so pw')) k 0 []")
       (simp_all add: Let_def keyWrap_built(2))
  then show "\<exists>cc t. New (DeriveKey so pw') False False = Returns cc
          \<and> LoadConfFile rN rP s fn pw' =
              Returns (case DecryptBlock (contentenc_New cc 4096) k 0 [] of
                         Inl e \<Rightarrow> Inl PasswordIncorrect
                       | Inr key' \<Rightarrow> Inr (key', ?cf), t)
          \<and> ctors t = ctors s @ [CallNew (DeriveKey so pw') False False, CallContentEncNew cc 4096]
          \<and> IVLen cc * 8 = 96 \<and> Gcm cc = GoGCM (DeriveKey so pw') (96 div 8)"
    using n by (auto simp: keyWrapContentEnc_def)
qed

theorem C9_key_wrap_core_fixed_witness:
  "(\<exists>cf t. LoadConfFile [FlagDirIV, FlagEMENames, FlagGCMIV128] [FlagGCMIV128] sysFix ''legacy.conf'' ''test''
         = Returns (Inr (keyFix, cf), t)
       \<and> ctors t = [CallNew (DeriveKey kdfFix ''test'') False False,
            CallContentEncNew \<lparr>BlockCipher = DeriveKey kdfFix ''test'', Gcm = GoGCM (DeriveKey kdfFix ''test'') 12,
                GcmIVGen = 12, IVLen = 12\<rparr> 4096])
   \<and> (\<exists>cf t. LoadConfFile [FlagDirIV, FlagEMENames, FlagGCMIV128] [FlagGCMIV128] sysFix ''PlaintextNames.conf'' ''test''
         = Returns (Inr (keyFix, cf), t)
       \<and> ctors t = [CallNew (DeriveKey kdfFix ''test'') False False,
            CallContentEncNew \<lparr>BlockCipher = DeriveKey kdfFix ''test'', Gcm = GoGCM (DeriveKey kdfFix ''test'') 12,
                GcmIVGen = 12, IVLen = 12\<rparr> 4096])
   \<and> (\<exists>kdf cc cf' s'. EncryptKey (8, 1) confFix sys0 keyFix ''test'' 10 = Returns (cf', s')
       \<and> ctors s' = [CallNew (DeriveKey kdf ''test'') False False, CallContentEncNew cc 4096]
       \<and> IVLen cc = 12 \<and> Gcm cc = GoGCM (DeriveKey kdf ''test'') 12)"
proof (intro conjI)
  let ?cc = "\<lparr>BlockCipher = DeriveKey kdfFix ''test'', Gcm = GoGCM (DeriveKey kdfFix ''test'') 12,
                GcmIVGen = 12, IVLen = 12\<rparr>"
  have c: "content \<lparr>perm = mode0400, content = d\<rparr> = d" for d by simp
  have k: "list_all isFeatureFlagKnown [''DirIV'']" "list_all isFeatureFlagKnown [''GCMIV128'', ''PlaintextNames'']"
    by (simp_all add: isFeatureFlagKnown_def allFlags_def)
  have l: "kdf_KeyLen kdfFix = 32" by (simp add: kdfFix_def)
  have n: "New (DeriveKey kdfFix ''test'') False False = Returns ?cc"
    by (simp add: New_def DeriveKey_def KeyLen_def kdfFix_def Let_def)
  have d: "DecryptBlock (contentenc_New ?cc 4096) blobFix 0 [] = Inr keyFix"
    by (simp add: contentenc_New_def blobFix_def)
  have s0: "ctors sysFix = []" by (simp add: sysFix_def sys0_def)
  from C9_key_wrap_core_fixed [where s = sysFix and fn = "''legacy.conf''" and pw' = "''test''"
        and rN = "[FlagDirIV, FlagEMENames, FlagGCMIV128]" and rP = "[FlagGCMIV128]",
        THEN conjunct2, rule_format,
        OF conjI [OF fix_files(1) conjI [OF fix_files(4) conjI [OF c conjI [OF k(1) l]]]]]
  show "\<exists>cf t. LoadConfFile [FlagDirIV, FlagEMENames, FlagGCMIV128] [FlagGCMIV128] sysFix ''legacy.conf'' ''test''
         = Returns (Inr (keyFix, cf), t)
       \<and> ctors t = [CallNew (DeriveKey kdfFix ''test'') False False, CallContentEncNew ?cc 4096]"
    using n d s0 by auto
  from C9_key_wrap_core_fixed [where s = sysFix and fn = "''PlaintextNames.conf''" and pw' = "''test''"
        and rN = "[FlagDirIV, FlagEMENames, FlagGCMIV128]" and rP = "[FlagGCMIV128]",
        THEN conjunct2, rule_format,
        OF conjI [OF fix_files(1) conjI [OF fix_files(5) conjI [OF c conjI [OF k(2) l]]]]]
  show "\<exists>cf t. LoadConfFile [FlagDirIV, FlagEMENames, FlagGCMIV128] [FlagGCMIV128] sysFix ''PlaintextNames.conf'' ''test''
         = Returns (Inr (keyFix, cf), t)
       \<and> ctors t = [CallNew (DeriveKey kdfFix ''test'') False False, CallContentEncNew ?cc 4096]"
    using n d s0 by auto
  from C9_key_wrap_core_fixed [where s = sys0 and rp = "(8, 1)" and cf = confFix and key = keyFix
        and pw = "''test''" and logN = 10, THEN conjunct1]
  show "\<exists>kdf cc cf' s'. EncryptKey (8, 1) confFix sys0 keyFix ''test'' 10 = Returns (cf', s')
       \<and> ctors s' = [CallNew (DeriveKey kdf ''test'') False False, CallContentEncNew cc 4096]
       \<and> IVLen cc = 12 \<and> Gcm cc = GoGCM (DeriveKey kdf ''test'') 12"
    by (auto simp: sys0_def)
qed

section \<open>The file handle: lemmas and theorems\<close>

text \<open>
  Claim C10.  \<open>Release\<close> on a handle whose released flag is set panics.  On any other
  handle it takes the exclusive lock, closes the descriptor, sets the flag and drops
  the lock (\<open>Release_locked\<close>: the flag is set when the lock is dropped), and after that
  unregisters the inode from the write-lock table.
\<close>

theorem C10_release:
  "(released f \<longrightarrow> Release E (f, tr) = Panics)
   \<and> (\<not> released f \<longrightarrow>
        Release_locked E (f, tr) = Returns (f\<lparr>released := True\<rparr>, tr @ [CLock, CClose, CUnlock])
      \<and> Release E (f, tr)
          = Returns (f\<lparr>released := True\<rparr>, tr @ [CLock, CClose, CUnlock, CWlockUnregister (ino f)]))"
  by (simp add: Release_def Release_locked_def ask_def)

theorem C10_release_witness:
  "Release envEmpty (hReleased, []) = Panics
   \<and> Release envEmpty (hOpen, []) = Returns (hReleased, [CLock, CClose, CUnlock, CWlockUnregister 7])"
  using C10_release [of hReleased envEmpty "[]"] C10_release [of hOpen envEmpty "[]"]
  by (simp add: hReleased_def hOpen_def hFresh_def)

lemma closedFd_err: "closedFd E \<Longrightarrow> fdCall c \<Longrightarrow> r_err (answer E tr c) = Some (Errno EBADF)"
  by (simp add: closedFd_def)

lemma closedFd_utimes: "closedFd E \<Longrightarrow> r_err (answer E tr CUtimesNano) = Some (Errno ENOENT)"
  by (simp add: closedFd_def)

lemma Read_closed:
  assumes "closedFd E" "0 < n" "0 < plainBS (contentEnc f)" "\<not> writeOnly f"
  shows "\<exists>len o'. Read E (f, tr) n off = Returns ((f, tr @ [CRLock, CReadAt len o', CRUnlock]), [], Status EBADF)"
proof -
  have ne: "ExplodePlainRange (contentEnc f) off n \<noteq> []"
    using assms(2,3) by (subst ExplodePlainRange.simps) (simp add: Let_def)
  show ?thesis
  proof (cases "header f")
    case None
    then have "Read E (f, tr) n off
        = Returns ((f, tr @ [CRLock, CReadAt (HEADER_LEN E) 0, CRUnlock]), [], Status EBADF)"
      using assms(4) closedFd_err [OF assms(1)]
      by (simp add: Read_def doRead_def readHeader_def ask_def Let_def)
    then show ?thesis by blast
  next
    case (Some h)
    obtain ao al where j: "JointCiphertextRange (HEADER_LEN E) (contentEnc f)
        (ExplodePlainRange (contentEnc f) off n) = (ao, al)"
      by (metis prod.collapse)
    have "Read E (f, tr) n off
        = Returns ((f, tr @ [CRLock, CReadAt al ao, CRUnlock]), [], Status EBADF)"
      using Some assms(4) ne j closedFd_err [OF assms(1)]
      by (simp add: Read_def doRead_def ask_def Let_def)
    then show ?thesis by blast
  qed
qed

lemma readHeader_flag:
  "readHeader E (f\<lparr>released := b\<rparr>, tr) =
     (case readHeader E (f, tr) of (e, (f', tr')) \<Rightarrow> (e, (f'\<lparr>released := b\<rparr>, tr')))"
  by (simp add: readHeader_def ask_def Let_def split: option.splits)

lemma doRead_flag:
  "doRead E (f\<lparr>released := b\<rparr>, tr) off len =
     (case doRead E (f, tr) off len of
        Panics \<Rightarrow> Panics
      | Returns ((f', tr'), out, st) \<Rightarrow> Returns ((f'\<lparr>released := b\<rparr>, tr'), out, st))"
proof (cases "header f")
  case (Some h)
  then show ?thesis
    by (simp add: doRead_def ask_def Let_def split_beta)
next
  case None
  obtain e f1 tr1 where rh: "readHeader E (f, tr) = (e, (f1, tr1))" by (metis prod.collapse)
  then have rh': "readHeader E (f\<lparr>released := b\<rparr>, tr) = (e, (f1\<lparr>released := b\<rparr>, tr1))"
    by (simp add: readHeader_flag)
  show ?thesis
    using None rh rh'
    by (cases "header f1") (simp_all add: doRead_def ask_def Let_def split_beta split: option.splits)
qed

lemma Read_flag:
  "Read E (f\<lparr>released := b\<rparr>, tr) n off =
     (case Read E (f, tr) n off of
        Panics \<Rightarrow> Panics
      | Returns ((f', tr'), out, st) \<Rightarrow> Returns ((f'\<lparr>released := b\<rparr>, tr'), out, st))"
  by (simp add: Read_def doRead_flag Let_def split: outcome.splits)

lemma passthrough_flag:
  "Flush E (f\<lparr>released := b\<rparr>, tr) = (case Flush E (f, tr) of ((f', tr'), st) \<Rightarrow> ((f'\<lparr>released := b\<rparr>, tr'), st))"
  "Fsync E (f\<lparr>released := b\<rparr>, tr) = (case Fsync E (f, tr) of ((f', tr'), st) \<Rightarrow> ((f'\<lparr>released := b\<rparr>, tr'), st))"
  "Chmod E (f\<lparr>released := b\<rparr>, tr) m = (case Chmod E (f, tr) m of ((f', tr'), st) \<Rightarrow> ((f'\<lparr>released := b\<rparr>, tr'), st))"
  "Chown E (f\<lparr>released := b\<rparr>, tr) u g = (case Chown E (f, tr) u g of ((f', tr'), st) \<Rightarrow> ((f'\<lparr>released := b\<rparr>, tr'), st))"
  "GetAttr E (f\<lparr>released := b\<rparr>, tr) = (case GetAttr E (f, tr) of ((f', tr'), sz, st) \<Rightarrow> ((f'\<lparr>released := b\<rparr>, tr'), sz, st))"
  "Utimens E (f\<lparr>released := b\<rparr>, tr) = (case Utimens E (f, tr) of ((f', tr'), st) \<Rightarrow> ((f'\<lparr>released := b\<rparr>, tr'), st))"
  by (simp_all add: Flush_def Fsync_def Chmod_def Chown_def GetAttr_def Utimens_def ask_def Let_def
      split: option.splits)

text \<open>
  Claim C2, amended.  On a handle whose released flag is set, \<open>Write\<close> and
  \<open>Truncate\<close> return \<open>EBADF\<close> at once: they take and drop the shared lock and touch
  neither the descriptor nor the write-lock table.  \<open>Read\<close> returns \<open>EBADF\<close> at once
  on a write-only handle.  \<open>Read\<close>, \<open>Flush\<close>, \<open>Fsync\<close>, \<open>Chmod\<close>, \<open>Chown\<close>,
  \<open>GetAttr\<close> and \<open>Utimens\<close> do not depend on the flag: on the released handle they
  make the calls and return the result and the status that they make and return on the
  same handle with the flag cleared.  When the operating system answers for the closed
  descriptor as in \<open>closedFd\<close>, each of them makes its one call on the descriptor
  between taking and dropping the shared lock (\<open>Read\<close> of a non-empty range on a
  handle that is not write-only) and returns \<open>EBADF\<close>.  \<open>Allocate\<close> makes no call
  and returns \<open>ENOSYS\<close>, and \<open>Release\<close> panics.
\<close>

theorem C2_released_handle:
  assumes "released f"
  shows "Write ch zp E (f, tr) data off = Returns ((f, tr @ [CRLock, CRUnlock]), 0, Status EBADF)
    \<and> Truncate E (f, tr) newSize = Returns ((f, tr @ [CRLock, CRUnlock]), Status EBADF)
    \<and> (writeOnly f \<longrightarrow> Read E (f, tr) n off = Returns ((f, tr @ [CRLock, CRUnlock]), [], Status EBADF))
    \<and> Read E (f, tr) n off =
         (case Read E (f\<lparr>released := False\<rparr>, tr) n off of
            Panics \<Rightarrow> Panics
          | Returns ((f', tr'), out, st) \<Rightarrow> Returns ((f'\<lparr>released := True\<rparr>, tr'), out, st))
    \<and> Flush E (f, tr) =
         (case Flush E (f\<lparr>released := False\<rparr>, tr) of ((f', tr'), st) \<Rightarrow> ((f'\<lparr>released := True\<rparr>, tr'), st))
    \<and> Fsync E (f, tr) =
         (case Fsync E (f\<lparr>released := False\<rparr>, tr) of ((f', tr'), st) \<Rightarrow> ((f'\<lparr>released := True\<rparr>, tr'), st))
    \<and> Chmod E (f, tr) m =
         (case Chmod E (f\<lparr>released := False\<rparr>, tr) m of ((f', tr'), st) \<Rightarrow> ((f'\<lparr>released := True\<rparr>, tr'), st))
    \<and> Chown E (f, tr) u g =
         (case Chown E (f\<lparr>released := False\<rparr>, tr) u g of ((f', tr'), st) \<Rightarrow> ((f'\<lparr>released := True\<rparr>, tr'), st))
    \<and> GetAttr E (f, tr) =
         (case GetAttr E (f\<lparr>released := False\<rparr>, tr) of
            ((f', tr'), sz, st) \<Rightarrow> ((f'\<lparr>released := True\<rparr>, tr'), sz, st))
    \<and> Utimens E (f, tr) =
         (case Utimens E (f\<lparr>released := False\<rparr>, tr) of ((f', tr'), st) \<Rightarrow> ((f'\<lparr>released := True\<rparr>, tr'), st))
    \<and> (closedFd E \<and> 0 < n \<and> 0 < plainBS (contentEnc f) \<longrightarrow>
          (\<exists>ev. Read E (f, tr) n off = Returns ((f, tr @ CRLock # ev @ [CRUnlock]), [], Status EBADF)
              \<and> (\<not> writeOnly f \<longrightarrow> (\<exists>len o'. ev = [CReadAt len o']))))
    \<and> (closedFd E \<longrightarrow>
          Flush E (f, tr) = ((f, tr @ [CRLock, CDup, CRUnlock]), Status EBADF)
        \<and> Fsync E (f, tr) = ((f, tr @ [CRLock, CFsync, CRUnlock]), Status EBADF)
        \<and> Chmod E (f, tr) m = ((f, tr @ [CRLock, CChmod m, CRUnlock]), Status EBADF)
        \<and> Chown E (f, tr) u g = ((f, tr @ [CRLock, CChown u g, CRUnlock]), Status EBADF)
        \<and> GetAttr E (f, tr) = ((f, tr @ [CRLock, CFstat, CRUnlock]), 0, Status EBADF)
        \<and> Utimens E (f, tr) = ((f, tr @ [CRLock, CUtimesNano, CRUnlock]), Status EBADF))
    \<and> Allocate E (f, tr) off sz m = ((f, tr), Status ENOSYS)
    \<and> Release E (f, tr) = Panics"
proof -
  have fl: "f = (f\<lparr>released := False\<rparr>)\<lparr>released := True\<rparr>" using assms by simp
  have w: "Write ch zp E (f, tr) data off = Returns ((f, tr @ [CRLock, CRUnlock]), 0, Status EBADF)"
    using assms by (simp add: Write_def)
  have t: "Truncate E (f, tr) newSize = Returns ((f, tr @ [CRLock, CRUnlock]), Status EBADF)"
    using assms by (simp add: Truncate_def)
  have r: "writeOnly f \<longrightarrow> Read E (f, tr) n off = Returns ((f, tr @ [CRLock, CRUnlock]), [], Status EBADF)"
    by (simp add: Read_def)
  have i1: "Read E (f, tr) n off =
         (case Read E (f\<lparr>released := False\<rparr>, tr) n off of
            Panics \<Rightarrow> Panics
          | Returns ((f', tr'), out, st) \<Rightarrow> Returns ((f'\<lparr>released := True\<rparr>, tr'), out, st))"
    by (subst fl) (rule Read_flag)
  have i2: "Flush E (f, tr) =
         (case Flush E (f\<lparr>released := False\<rparr>, tr) of ((f', tr'), st) \<Rightarrow> ((f'\<lparr>released := True\<rparr>, tr'), st))"
    by (subst fl) (rule passthrough_flag)
  have i3: "Fsync E (f, tr) =
         (case Fsync E (f\<lparr>released := False\<rparr>, tr) of ((f', tr'), st) \<Rightarrow> ((f'\<lparr>released := True\<rparr>, tr'), st))"
    by (subst fl) (rule passthrough_flag)
  have i4: "Chmod E (f, tr) m =
         (case Chmod E (f\<lparr>released := False\<rparr>, tr) m of ((f', tr'), st) \<Rightarrow> ((f'\<lparr>released := True\<rparr>, tr'), st))"
    by (subst fl) (rule passthrough_flag)
  have i5: "Chown E (f, tr) u g =
         (case Chown E (f\<lparr>released := False\<rparr>, tr) u g of ((f', tr'), st) \<Rightarrow> ((f'\<lparr>released := True\<rparr>, tr'), st))"
    by (subst fl) (rule passthrough_flag)
  have i6: "GetAttr E (f, tr) =
         (case GetAttr E (f\<lparr>released := False\<rparr>, tr) of
            ((f', tr'), sz, st) \<Rightarrow> ((f'\<lparr>released := True\<rparr>, tr'), sz, st))"
    by (subst fl) (rule passthrough_flag)
  have i7: "Utimens E (f, tr) =
         (case Utimens E (f\<lparr>released := False\<rparr>, tr) of ((f', tr'), st) \<Rightarrow> ((f'\<lparr>released := True\<rparr>, tr'), st))"
    by (subst fl) (rule passthrough_flag)
  have rc: "\<exists>ev. Read E (f, tr) n off = Returns ((f, tr @ CRLock # ev @ [CRUnlock]), [], Status EBADF)
              \<and> (\<not> writeOnly f \<longrightarrow> (\<exists>len o'. ev = [CReadAt len o']))"
    if c: "closedFd E" "0 < n" "0 < plainBS (contentEnc f)"
  proof (cases "writeOnly f")
    case True
    then show ?thesis by (intro exI [of _ "[]"]) (simp add: Read_def)
  next
    case False
    from Read_closed [OF c False, of tr off] obtain len o' where
      "Read E (f, tr) n off = Returns ((f, tr @ [CRLock, CReadAt len o', CRUnlock]), [], Status EBADF)"
      by (elim exE)
    then show ?thesis by (intro exI [of _ "[CReadAt len o']"]) simp
  qed
  have c: "Flush E (f, tr) = ((f, tr @ [CRLock, CDup, CRUnlock]), Status EBADF)
        \<and> Fsync E (f, tr) = ((f, tr @ [CRLock, CFsync, CRUnlock]), Status EBADF)
        \<and> Chmod E (f, tr) m = ((f, tr @ [CRLock, CChmod m, CRUnlock]), Status EBADF)
        \<and> Chown E (f, tr) u g = ((f, tr @ [CRLock, CChown u g, CRUnlock]), Status EBADF)
        \<and> GetAttr E (f, tr) = ((f, tr @ [CRLock, CFstat, CRUnlock]), 0, Status EBADF)
        \<and> Utimens E (f, tr) = ((f, tr @ [CRLock, CUtimesNano, CRUnlock]), Status EBADF)"
    if "closedFd E"
    using closedFd_err [OF that] closedFd_utimes [OF that]
    by (simp add: Flush_def Fsync_def Chmod_def Chown_def GetAttr_def Utimens_def ask_def)
  have a: "Allocate E (f, tr) off sz m = ((f, tr), Status ENOSYS)"
    by (simp add: Allocate_def)
  have p: "Release E (f, tr) = Panics"
    using assms by (simp add: Release_def Release_locked_def)
  show ?thesis
  proof (intro conjI impI)
    show "Write ch zp E (f, tr) data off = Returns ((f, tr @ [CRLock, CRUnlock]), 0, Status EBADF)"
      by (rule w)
    show "Truncate E (f, tr) newSize = Returns ((f, tr @ [CRLock, CRUnlock]), Status EBADF)"
      by (rule t)
    show "Read E (f, tr) n off = Returns ((f, tr @ [CRLock, CRUnlock]), [], Status EBADF)"
      if "writeOnly f" using that r by simp
    show "Read E (f, tr) n off =
         (case Read E (f\<lparr>released := False\<rparr>, tr) n off of
            Panics \<Rightarrow> Panics
          | Returns ((f', tr'), out, st) \<Rightarrow> Returns ((f'\<lparr>released := True\<rparr>, tr'), out, st))"
      by (rule i1)
    show "Flush E (f, tr) =
         (case Flush E (f\<lparr>released := False\<rparr>, tr) of ((f', tr'), st) \<Rightarrow> ((f'\<lparr>released := True\<rparr>, tr'), st))"
      by (rule i2)
    show "Fsync E (f, tr) =
         (case Fsync E (f\<lparr>released := False\<rparr>, tr) of ((f', tr'), st) \<Rightarrow> ((f'\<lparr>released := True\<rparr>, tr'), st))"
      by (rule i3)
    show "Chmod E (f, tr) m =
         (case Chmod E (f\<lparr>released := False\<rparr>, tr) m of ((f', tr'), st) \<Rightarrow> ((f'\<lparr>released := True\<rparr>, tr'), st))"
      by (rule i4)
    show "Chown E (f, tr) u g =
         (case Chown E (f\<lparr>released := False\<rparr>, tr) u g of ((f', tr'), st) \<Rightarrow> ((f'\<lparr>released := True\<rparr>, tr'), st))"
      by (rule i5)
    show "GetAttr E (f, tr) =
         (case GetAttr E (f\<lparr>released := False\<rparr>, tr) of
            ((f', tr'), sz, st) \<Rightarrow> ((f'\<lparr>released := True\<rparr>, tr'), sz, st))"
      by (rule i6)
    show "Utimens E (f, tr) =
         (case Utimens E (f\<lparr>released := False\<rparr>, tr) of ((f', tr'), st) \<Rightarrow> ((f'\<lparr>released := True\<rparr>, tr'), st))"
      by (rule i7)
    show "\<exists>ev. Read E (f, tr) n off = Returns ((f, tr @ CRLock # ev @ [CRUnlock]), [], Status EBADF)
              \<and> (\<not> writeOnly f \<longrightarrow> (\<exists>len o'. ev = [CReadAt len o']))"
      if "closedFd E \<and> 0 < n \<and> 0 < plainBS (contentEnc f)"
      using that rc by simp
    show "Flush E (f, tr) = ((f, tr @ [CRLock, CDup, CRUnlock]), Status EBADF)" if "closedFd E"
      using c [OF that] by simp
    show "Fsync E (f, tr) = ((f, tr @ [CRLock, CFsync, CRUnlock]), Status EBADF)" if "closedFd E"
      using c [OF that] by simp
    show "Chmod E (f, tr) m = ((f, tr @ [CRLock, CChmod m, CRUnlock]), Status EBADF)" if "closedFd E"
      using c [OF that] by simp
    show "Chown E (f, tr) u g = ((f, tr @ [CRLock, CChown u g, CRUnlock]), Status EBADF)" if "closedFd E"
      using c [OF that] by simp
    show "GetAttr E (f, tr) = ((f, tr @ [CRLock, CFstat, CRUnlock]), 0, Status EBADF)" if "closedFd E"
      using c [OF that] by simp
    show "Utimens E (f, tr) = ((f, tr @ [CRLock, CUtimesNano, CRUnlock]), Status EBADF)" if "closedFd E"
      using c [OF that] by simp
    show "Allocate E (f, tr) off sz m = ((f, tr), Status ENOSYS)" by (rule a)
    show "Release E (f, tr) = Panics" by (rule p)
  qed
qed

lemma ceFix_simps: "plainBS ceFix = 4096" "cipherBS ceFix = 4128"
  by (simp_all add: ceFix_def contentenc_New_def AuthTagLen_def)

lemma explode_read_10: "ExplodePlainRange ceFix 0 10 = [\<lparr>BlockNo = 0, Skip = 0, Length = 10\<rparr>]"
  by (simp add: ExplodePlainRange.simps ceFix_simps Let_def PlainOffToBlockNo_def BlockNoToPlainOff_def)

lemma Read_envEmpty_open:
  "Read envEmpty (hOpen, []) 10 0 =
     Returns ((hOpen, [CRLock, CReadAt 4128 18, CDecryptBlocks [] 0 idFix, CRUnlock]), [], OK)"
  by (simp add: Read_def doRead_def Let_def ask_def explode_read_10 hOpen_def hFresh_def
      JointCiphertextRange_def BlockNoToCipherOff_def envEmpty_def okReply_def ceFix_simps)

lemma passthrough_envEmpty:
  "Flush envEmpty (f, []) = ((f, [CRLock, CDup, CCloseDup, CRUnlock]), OK)"
  "Fsync envEmpty (f, []) = ((f, [CRLock, CFsync, CRUnlock]), OK)"
  "Chmod envEmpty (f, []) m = ((f, [CRLock, CChmod m, CRUnlock]), OK)"
  "Chown envEmpty (f, []) u g = ((f, [CRLock, CChown u g, CRUnlock]), OK)"
  "Utimens envEmpty (f, []) = ((f, [CRLock, CUtimesNano, CRUnlock]), OK)"
  by (simp_all add: Flush_def Fsync_def Chmod_def Chown_def Utimens_def ask_def Let_def
      envEmpty_def okReply_def)

lemma GetAttr_envEmpty_released:
  "GetAttr envEmpty (hReleased, []) = ((hReleased, [CRLock, CFstat, CRUnlock]), 0, OK)"
  by (simp add: GetAttr_def ask_def Let_def envEmpty_def okReply_def CipherSizeToPlainSize_def)

text \<open>
  The claim C2 as stated (every operation on a released handle fails with \<open>EBADF\<close>)
  fails.  On the released handle \<open>Allocate\<close> does not return \<open>EBADF\<close> and
  \<open>Release\<close> does not return at all.  \<open>Read\<close>, \<open>Flush\<close>, \<open>Fsync\<close>, \<open>Chmod\<close>,
  \<open>Chown\<close>, \<open>GetAttr\<close> and \<open>Utimens\<close> make their call on the descriptor although
  the flag is set, and return \<open>OK\<close> when the operating system answers that call
  without an error: their status is the operating system's, not the flag's.
\<close>

theorem C2_counterexample:
  "released hReleased
   \<and> snd (Allocate envClosed (hReleased, []) 0 4096 0) \<noteq> Status EBADF
   \<and> Release envClosed (hReleased, []) = Panics
   \<and> Read envEmpty (hReleased, []) 10 0 =
        Returns ((hReleased, [CRLock, CReadAt 4128 18, CDecryptBlocks [] 0 idFix, CRUnlock]), [], OK)
   \<and> Flush envEmpty (hReleased, []) = ((hReleased, [CRLock, CDup, CCloseDup, CRUnlock]), OK)
   \<and> Fsync envEmpty (hReleased, []) = ((hReleased, [CRLock, CFsync, CRUnlock]), OK)
   \<and> Chmod envEmpty (hReleased, []) 420 = ((hReleased, [CRLock, CChmod 420, CRUnlock]), OK)
   \<and> Chown envEmpty (hReleased, []) 0 0 = ((hReleased, [CRLock, CChown 0 0, CRUnlock]), OK)
   \<and> GetAttr envEmpty (hReleased, []) = ((hReleased, [CRLock, CFstat, CRUnlock]), 0, OK)
   \<and> Utimens envEmpty (hReleased, []) = ((hReleased, [CRLock, CUtimesNano, CRUnlock]), OK)"
proof (intro conjI)
  show "released hReleased" by (simp add: hReleased_def)
  show "snd (Allocate envClosed (hReleased, []) 0 4096 0) \<noteq> Status EBADF"
    by (simp add: Allocate_def)
  show "Release envClosed (hReleased, []) = Panics"
    by (simp add: hReleased_def Release_def Release_locked_def)
  show "Read envEmpty (hReleased, []) 10 0 =
        Returns ((hReleased, [CRLock, CReadAt 4128 18, CDecryptBlocks [] 0 idFix, CRUnlock]), [], OK)"
    unfolding hReleased_def by (simp add: Read_flag Read_envEmpty_open)
  show "Flush envEmpty (hReleased, []) = ((hReleased, [CRLock, CDup, CCloseDup, CRUnlock]), OK)"
    by (rule passthrough_envEmpty)
  show "Fsync envEmpty (hReleased, []) = ((hReleased, [CRLock, CFsync, CRUnlock]), OK)"
    by (rule passthrough_envEmpty)
  show "Chmod envEmpty (hReleased, []) 420 = ((hReleased, [CRLock, CChmod 420, CRUnlock]), OK)"
    by (rule passthrough_envEmpty)
  show "Chown envEmpty (hReleased, []) 0 0 = ((hReleased, [CRLock, CChown 0 0, CRUnlock]), OK)"
    by (rule passthrough_envEmpty)
  show "GetAttr envEmpty (hReleased, []) = ((hReleased, [CRLock, CFstat, CRUnlock]), 0, OK)"
    by (rule GetAttr_envEmpty_released)
  show "Utimens envEmpty (hReleased, []) = ((hReleased, [CRLock, CUtimesNano, CRUnlock]), OK)"
    by (rule passthrough_envEmpty)
qed

lemma closedFd_envClosed: "closedFd envClosed"
  by (simp add: closedFd_def envClosed_def okReply_def)

text \<open>
  The amended claim C2 at the released handle: with the descriptor closed every
  operation makes its one call and returns \<open>EBADF\<close>; with an operating system that
  answers without an error, \<open>Flush\<close> on the released handle does what it does on the
  open one.
\<close>

theorem C2_released_handle_witness:
  "Write noHole noPad envClosed (hReleased, []) [1, 2, 3] 0 = Returns ((hReleased, [CRLock, CRUnlock]), 0, Status EBADF)
   \<and> Truncate envClosed (hReleased, []) 100 = Returns ((hReleased, [CRLock, CRUnlock]), Status EBADF)
   \<and> (\<exists>len o'. Read envClosed (hReleased, []) 10 0 =
         Returns ((hReleased, [CRLock, CReadAt len o', CRUnlock]), [], Status EBADF))
   \<and> Flush envClosed (hReleased, []) = ((hReleased, [CRLock, CDup, CRUnlock]), Status EBADF)
   \<and> Fsync envClosed (hReleased, []) = ((hReleased, [CRLock, CFsync, CRUnlock]), Status EBADF)
   \<and> GetAttr envClosed (hReleased, []) = ((hReleased, [CRLock, CFstat, CRUnlock]), 0, Status EBADF)
   \<and> Utimens envClosed (hReleased, []) = ((hReleased, [CRLock, CUtimesNano, CRUnlock]), Status EBADF)
   \<and> Allocate envClosed (hReleased, []) 0 4096 0 = ((hReleased, []), Status ENOSYS)
   \<and> Release envClosed (hReleased, []) = Panics
   \<and> Flush envEmpty (hReleased, []) = ((hReleased, [CRLock, CDup, CCloseDup, CRUnlock]), OK)"
proof -
  have r: "released hReleased" by (simp add: hReleased_def)
  have b: "0 < plainBS (contentEnc hReleased)"
    by (simp add: hReleased_def hOpen_def hFresh_def ceFix_simps)
  have wo: "\<not> writeOnly hReleased" by (simp add: hReleased_def hOpen_def hFresh_def)
  have o: "hReleased\<lparr>released := False\<rparr> = hOpen" "hOpen\<lparr>released := True\<rparr> = hReleased"
    by (simp_all add: hReleased_def hOpen_def hFresh_def)
  note c = C2_released_handle [OF r, of noHole noPad envClosed "[]" "[1, 2, 3]" 0 100 10 0 0 0 4096]
  note e = C2_released_handle [OF r, of noHole noPad envEmpty "[]" "[1, 2, 3]" 0 100 10 0 0 0 4096]
  note c2 = c [THEN conjunct2]
  note c3 = c2 [THEN conjunct2]
  note c4 = c3 [THEN conjunct2]
  note c5 = c4 [THEN conjunct2]
  note c6 = c5 [THEN conjunct2]
  note c7 = c6 [THEN conjunct2]
  note c8 = c7 [THEN conjunct2]
  note c9 = c8 [THEN conjunct2]
  note c10 = c9 [THEN conjunct2]
  note c11 = c10 [THEN conjunct2]
  note c12 = c11 [THEN conjunct2]
  note c13 = c12 [THEN conjunct2]
  note ops = c12 [THEN conjunct1, rule_format, OF closedFd_envClosed]
  have k1: "Write noHole noPad envClosed (hReleased, []) [1, 2, 3] 0
      = Returns ((hReleased, [CRLock, CRUnlock]), 0, Status EBADF)"
    using c [THEN conjunct1] by simp
  have k2: "Truncate envClosed (hReleased, []) 100 = Returns ((hReleased, [CRLock, CRUnlock]), Status EBADF)"
    using c2 [THEN conjunct1] by simp
  from c11 [THEN conjunct1] closedFd_envClosed b obtain ev where
    rd: "Read envClosed (hReleased, []) 10 0 = Returns ((hReleased, [] @ CRLock # ev @ [CRUnlock]), [], Status EBADF)"
    and sh: "\<not> writeOnly hReleased \<longrightarrow> (\<exists>len o'. ev = [CReadAt len o'])"
    by auto
  from sh wo obtain len o' where ev: "ev = [CReadAt len o']" by blast
  have k3: "\<exists>len o'. Read envClosed (hReleased, []) 10 0 =
         Returns ((hReleased, [CRLock, CReadAt len o', CRUnlock]), [], Status EBADF)"
    using rd unfolding ev by (intro exI [of _ len] exI [of _ o']) simp
  have k4: "Flush envClosed (hReleased, []) = ((hReleased, [CRLock, CDup, CRUnlock]), Status EBADF)"
    using ops [THEN conjunct1] by simp
  have k5: "Fsync envClosed (hReleased, []) = ((hReleased, [CRLock, CFsync, CRUnlock]), Status EBADF)"
    using ops [THEN conjunct2, THEN conjunct1] by simp
  have k6: "GetAttr envClosed (hReleased, []) = ((hReleased, [CRLock, CFstat, CRUnlock]), 0, Status EBADF)"
    using ops [THEN conjunct2, THEN conjunct2, THEN conjunct2, THEN conjunct2, THEN conjunct1] by simp
  have k7: "Utimens envClosed (hReleased, []) = ((hReleased, [CRLock, CUtimesNano, CRUnlock]), Status EBADF)"
    using ops [THEN conjunct2, THEN conjunct2, THEN conjunct2, THEN conjunct2, THEN conjunct2] by simp
  have k8: "Allocate envClosed (hReleased, []) 0 4096 0 = ((hReleased, []), Status ENOSYS)"
    using c13 [THEN conjunct1] by simp
  have k9: "Release envClosed (hReleased, []) = Panics"
    using c13 [THEN conjunct2] by simp
  note e4 = e [THEN conjunct2, THEN conjunct2, THEN conjunct2, THEN conjunct2, THEN conjunct1]
  have k10: "Flush envEmpty (hReleased, []) = ((hReleased, [CRLock, CDup, CCloseDup, CRUnlock]), OK)"
    using e4 o by (simp add: passthrough_envEmpty)
  from k1 k2 k3 k4 k5 k6 k7 k8 k9 k10 show ?thesis by (intro conjI)
qed

subsection \<open>What a write appends to the trace\<close>










lemma doWrite_cached: "header f \<noteq> None \<Longrightarrow>
   doWrite E (f, tr) data off = doWrite_loop E (f, tr) data (ExplodePlainRange (contentEnc f) off (length data)) 0"
  by (cases "header f") (simp_all add: doWrite_def)






subsection \<open>Growing truncation\<close>





















subsection \<open>The two claims at concrete runs\<close>














end
